theory Spec2Isabelle
  imports Main "HOL-Library.Word" "HOL-Library.Char_ord" "HOL-Library.List_Lexorder"
begin

section \<open>The catalog client of pkg/whatsapp/catalog.go\<close>

text \<open>
  The file holds seven methods of \<open>*Client\<close>: three URL builders and the operations
  CreateCatalog, ListCatalogs, DeleteCatalog, ListCatalogProducts, CreateProduct,
  UpdateProduct and DeleteProduct. Every operation builds a URL and a body, calls
  \<open>c.doRequest\<close> once, and (for four of them) decodes the response with
  \<open>json.Unmarshal\<close>.

  Go strings are byte sequences: \<open>string\<close> (a \<open>char list\<close>, one \<open>char\<close> per byte).
  \<open>int64\<close> is a 64-bit word read as two's complement.
\<close>

subsection \<open>Data\<close>

type_synonym int64 = "64 word"

text \<open>The fields of \<open>Account\<close> that catalog.go reads.\<close>

record Account =
  APIVersion :: string
  BusinessID :: string
  AccessToken :: string

text \<open>
  \<open>ProductInput\<close>, by the fields catalog.go reads. \<open>Price\<close> is passed to
  \<open>strconv.FormatInt\<close>, so it is an \<open>int64\<close>.
\<close>

record ProductInput =
  Name :: string
  Price :: int64
  Currency :: string
  URL :: string
  ImageURL :: string
  RetailerID :: string
  Description :: string

text \<open>
  A request body is the \<open>interface{}\<close> argument of \<open>doRequest\<close>: \<open>nil\<close> (\<open>None\<close>) or
  a \<open>map[string]string\<close>.
\<close>

type_synonym body = "(string \<rightharpoonup> string) option"

text \<open>
  The two methods of \<open>Client\<close> that catalog.go calls and does not define are fields of
  the client: \<open>getBaseURL\<close>, and the transport \<open>doRequest(ctx, method, url, body,
  accessToken)\<close>, which returns \<open>([]byte, error)\<close>. The transport acts on the outside
  world, so it takes the world \<open>'w\<close> and returns the new one; \<open>'e\<close> is the type of the
  errors it reports and \<open>'ctx\<close> the call context it is handed.
\<close>

record ('ctx, 'w, 'e) Client =
  getBaseURL :: string
  doRequest :: "'ctx \<Rightarrow> string \<Rightarrow> string \<Rightarrow> body \<Rightarrow> string \<Rightarrow> 'w \<Rightarrow> (string \<times> 'e option) \<times> 'w"

text \<open>The method names of net/http.\<close>

definition MethodGet :: string where
  "MethodGet = ''GET''"

definition MethodPost :: string where
  "MethodPost = ''POST''"

definition MethodDelete :: string where
  "MethodDelete = ''DELETE''"

subsection \<open>URL construction\<close>

text \<open>\<open>fmt.Sprintf\<close> with \<open>%s\<close> verbs and string arguments is concatenation.\<close>

definition buildCatalogsURL :: "('ctx, 'w, 'e) Client \<Rightarrow> Account \<Rightarrow> string" where
  "buildCatalogsURL c account =
     getBaseURL c @ ''/'' @ APIVersion account @ ''/'' @ BusinessID account @ ''/owned_product_catalogs''"

definition buildCatalogProductsURL :: "('ctx, 'w, 'e) Client \<Rightarrow> Account \<Rightarrow> string \<Rightarrow> string" where
  "buildCatalogProductsURL c account catalogID =
     getBaseURL c @ ''/'' @ APIVersion account @ ''/'' @ catalogID @ ''/products''"

definition buildProductURL :: "('ctx, 'w, 'e) Client \<Rightarrow> Account \<Rightarrow> string \<Rightarrow> string" where
  "buildProductURL c account productID =
     getBaseURL c @ ''/'' @ APIVersion account @ ''/'' @ productID"

subsection \<open>strconv.FormatInt(i, 10)\<close>

text \<open>
  catalog.go calls \<open>strconv.FormatInt\<close> with base 10 only. The library writes the digits
  of the magnitude (computed in \<open>uint64\<close>, so that the least \<open>int64\<close> has one) and a
  leading minus sign for a negative number.
\<close>

definition digit_char :: "nat \<Rightarrow> char" where
  "digit_char d = char_of (48 + d)"

function formatBits :: "nat \<Rightarrow> string" where
  "formatBits u = (if u < 10 then [digit_char u] else formatBits (u div 10) @ [digit_char (u mod 10)])"
  by pat_completeness auto
termination
  by (relation "measure id") auto

declare formatBits.simps [simp del]

definition FormatInt :: "int64 \<Rightarrow> string" where
  "FormatInt i = (if i <s 0 then CHR ''-'' # formatBits (unat (- i)) else formatBits (unat i))"

subsection \<open>Errors\<close>

text \<open>
  What \<open>json.Unmarshal\<close> reports: a \<open>*SyntaxError\<close> for text that is not JSON, an
  \<open>*UnmarshalTypeError\<close> (with the JSON kind it met) for a value that does not fit the
  Go type.
\<close>

datatype unmarshal_error = SyntaxError | UnmarshalTypeError string

text \<open>
  An operation returns the transport's error as it received it (\<open>RequestError\<close>), or
  \<open>fmt.Errorf("failed to parse response: %w", err)\<close> around the decoder's error
  (\<open>DecodeError\<close>).
\<close>

datatype 'e error = RequestError 'e | DecodeError unmarshal_error

subsection \<open>encoding/json: the scanner\<close>

text \<open>
  \<open>json.Unmarshal\<close> first runs \<open>checkValid\<close>: the scanner of encoding/json (scanner.go)
  reads the text byte by byte. It is a state machine: \<open>step\<close> is the state function to
  call on the next byte, \<open>parseState\<close> the stack of the arrays and objects that are
  open, \<open>endTop\<close> whether the top-level value has ended, \<open>scanErr\<close> (\<open>err\<close> in Go) whether an error has
  been recorded. Each step returns an opcode.
\<close>

datatype opcode =
    ScanContinue | ScanBeginLiteral | ScanBeginObject | ScanObjectKey | ScanObjectValue
  | ScanEndObject | ScanBeginArray | ScanArrayValue | ScanEndArray | ScanSkipSpace
  | ScanEnd | ScanError

datatype parse_state = ParseObjectKey | ParseObjectValue | ParseArrayValue

datatype step_state =
    StateBeginValueOrEmpty | StateBeginValue | StateBeginStringOrEmpty | StateBeginString
  | StateEndValue | StateEndTop
  | StateInString | StateInStringEsc | StateInStringEscU | StateInStringEscU1
  | StateInStringEscU12 | StateInStringEscU123
  | StateNeg | State1 | State0 | StateDot | StateDot0 | StateE | StateESign | StateE0
  | StateT | StateTr | StateTru | StateF | StateFa | StateFal | StateFals
  | StateN | StateNu | StateNul | StateError

text \<open>
  The stack grows at the end of a slice in Go; here its top is the head of the list.
  The scanner's byte counter, used only for the offset in error messages, is left out.
\<close>

record scanner =
  step :: step_state
  endTop :: bool
  parseState :: "parse_state list"
  scanErr :: bool

definition maxNestingDepth :: nat where
  "maxNestingDepth = 10000"

definition reset :: scanner where
  "reset = \<lparr>step = StateBeginValue, endTop = False, parseState = [], scanErr = False\<rparr>"

definition scan_error :: "scanner \<Rightarrow> opcode \<times> scanner" where
  "scan_error s = (ScanError, s\<lparr>step := StateError, scanErr := True\<rparr>)"

definition pushParseState :: "scanner \<Rightarrow> parse_state \<Rightarrow> opcode \<Rightarrow> opcode \<times> scanner" where
  "pushParseState s newParseState successState =
     (let s' = s\<lparr>parseState := newParseState # parseState s\<rparr> in
      if length (parseState s') \<le> maxNestingDepth then (successState, s') else scan_error s')"

definition popParseState :: "scanner \<Rightarrow> scanner" where
  "popParseState s =
     (let rest = tl (parseState s) in
      if rest = [] then s\<lparr>parseState := rest, step := StateEndTop, endTop := True\<rparr>
      else s\<lparr>parseState := rest, step := StateEndValue\<rparr>)"

text \<open>\<open>lo <= c && c <= hi\<close> on bytes.\<close>

definition between :: "char \<Rightarrow> char \<Rightarrow> char \<Rightarrow> bool" where
  "between lo c hi = (lo \<le> c \<and> c \<le> hi)"

definition isSpace :: "char \<Rightarrow> bool" where
  "isSpace c = (c = CHR '' '' \<or> c = CHR 0x09 \<or> c = CHR 0x0D \<or> c = CHR 0x0A)"

definition isDigit :: "char \<Rightarrow> bool" where
  "isDigit c = (between (CHR ''0'') c (CHR ''9''))"

definition isHex :: "char \<Rightarrow> bool" where
  "isHex c = (between (CHR ''0'') c (CHR ''9'') \<or> between (CHR ''a'') c (CHR ''f'')
     \<or> between (CHR ''A'') c (CHR ''F''))"

definition stateEndTop :: "scanner \<Rightarrow> char \<Rightarrow> opcode \<times> scanner" where
  "stateEndTop s c = (if \<not> isSpace c then (ScanEnd, snd (scan_error s)) else (ScanEnd, s))"

definition stateEndValue :: "scanner \<Rightarrow> char \<Rightarrow> opcode \<times> scanner" where
  "stateEndValue s c =
     (case parseState s of
        [] \<Rightarrow> stateEndTop (s\<lparr>step := StateEndTop, endTop := True\<rparr>) c
      | ps # rest \<Rightarrow>
          if isSpace c then (ScanSkipSpace, s\<lparr>step := StateEndValue\<rparr>)
          else (case ps of
            ParseObjectKey \<Rightarrow>
              if c = CHR '':''
              then (ScanObjectKey, s\<lparr>parseState := ParseObjectValue # rest, step := StateBeginValue\<rparr>)
              else scan_error s
          | ParseObjectValue \<Rightarrow>
              if c = CHR '',''
              then (ScanObjectValue, s\<lparr>parseState := ParseObjectKey # rest, step := StateBeginString\<rparr>)
              else if c = CHR ''}'' then (ScanEndObject, popParseState s)
              else scan_error s
          | ParseArrayValue \<Rightarrow>
              if c = CHR '','' then (ScanArrayValue, s\<lparr>step := StateBeginValue\<rparr>)
              else if c = CHR '']'' then (ScanEndArray, popParseState s)
              else scan_error s))"

definition stateBeginValue :: "scanner \<Rightarrow> char \<Rightarrow> opcode \<times> scanner" where
  "stateBeginValue s c =
     (if isSpace c then (ScanSkipSpace, s)
      else if c = CHR ''{'' then pushParseState (s\<lparr>step := StateBeginStringOrEmpty\<rparr>) ParseObjectKey ScanBeginObject
      else if c = CHR ''['' then pushParseState (s\<lparr>step := StateBeginValueOrEmpty\<rparr>) ParseArrayValue ScanBeginArray
      else if c = CHR 0x22 then (ScanBeginLiteral, s\<lparr>step := StateInString\<rparr>)
      else if c = CHR ''-'' then (ScanBeginLiteral, s\<lparr>step := StateNeg\<rparr>)
      else if c = CHR ''0'' then (ScanBeginLiteral, s\<lparr>step := State0\<rparr>)
      else if c = CHR ''t'' then (ScanBeginLiteral, s\<lparr>step := StateT\<rparr>)
      else if c = CHR ''f'' then (ScanBeginLiteral, s\<lparr>step := StateF\<rparr>)
      else if c = CHR ''n'' then (ScanBeginLiteral, s\<lparr>step := StateN\<rparr>)
      else if between (CHR ''1'') c (CHR ''9'') then (ScanBeginLiteral, s\<lparr>step := State1\<rparr>)
      else scan_error s)"

definition stateBeginValueOrEmpty :: "scanner \<Rightarrow> char \<Rightarrow> opcode \<times> scanner" where
  "stateBeginValueOrEmpty s c =
     (if isSpace c then (ScanSkipSpace, s)
      else if c = CHR '']'' then stateEndValue s c
      else stateBeginValue s c)"

definition stateBeginString :: "scanner \<Rightarrow> char \<Rightarrow> opcode \<times> scanner" where
  "stateBeginString s c =
     (if isSpace c then (ScanSkipSpace, s)
      else if c = CHR 0x22 then (ScanBeginLiteral, s\<lparr>step := StateInString\<rparr>)
      else scan_error s)"

text \<open>
  On \<open>}\<close> right after \<open>{\<close> the scanner rewrites the top of the stack (the state is only
  entered with an object open) and ends the value.
\<close>

definition stateBeginStringOrEmpty :: "scanner \<Rightarrow> char \<Rightarrow> opcode \<times> scanner" where
  "stateBeginStringOrEmpty s c =
     (if isSpace c then (ScanSkipSpace, s)
      else if c = CHR ''}''
      then stateEndValue (s\<lparr>parseState := ParseObjectValue # tl (parseState s)\<rparr>) c
      else stateBeginString s c)"

definition stateInString :: "scanner \<Rightarrow> char \<Rightarrow> opcode \<times> scanner" where
  "stateInString s c =
     (if c = CHR 0x22 then (ScanContinue, s\<lparr>step := StateEndValue\<rparr>)
      else if c = CHR 0x5C then (ScanContinue, s\<lparr>step := StateInStringEsc\<rparr>)
      else if c < CHR 0x20 then scan_error s
      else (ScanContinue, s))"

definition stateInStringEsc :: "scanner \<Rightarrow> char \<Rightarrow> opcode \<times> scanner" where
  "stateInStringEsc s c =
     (if c = CHR ''b'' \<or> c = CHR ''f'' \<or> c = CHR ''n'' \<or> c = CHR ''r'' \<or> c = CHR ''t''
         \<or> c = CHR 0x5C \<or> c = CHR ''/'' \<or> c = CHR 0x22
      then (ScanContinue, s\<lparr>step := StateInString\<rparr>)
      else if c = CHR ''u'' then (ScanContinue, s\<lparr>step := StateInStringEscU\<rparr>)
      else scan_error s)"

text \<open>
  The states that accept one byte and move on: the four hexadecimal digits of a
  \<open>\u\<close> escape, and the letters of \<open>true\<close>, \<open>false\<close> and \<open>null\<close>.
\<close>

definition expect :: "bool \<Rightarrow> step_state \<Rightarrow> scanner \<Rightarrow> opcode \<times> scanner" where
  "expect ok next s = (if ok then (ScanContinue, s\<lparr>step := next\<rparr>) else scan_error s)"

definition state0 :: "scanner \<Rightarrow> char \<Rightarrow> opcode \<times> scanner" where
  "state0 s c =
     (if c = CHR ''.'' then (ScanContinue, s\<lparr>step := StateDot\<rparr>)
      else if c = CHR ''e'' \<or> c = CHR ''E'' then (ScanContinue, s\<lparr>step := StateE\<rparr>)
      else stateEndValue s c)"

definition state1 :: "scanner \<Rightarrow> char \<Rightarrow> opcode \<times> scanner" where
  "state1 s c = (if isDigit c then (ScanContinue, s\<lparr>step := State1\<rparr>) else state0 s c)"

definition stateNeg :: "scanner \<Rightarrow> char \<Rightarrow> opcode \<times> scanner" where
  "stateNeg s c =
     (if c = CHR ''0'' then (ScanContinue, s\<lparr>step := State0\<rparr>)
      else if between (CHR ''1'') c (CHR ''9'') then (ScanContinue, s\<lparr>step := State1\<rparr>)
      else scan_error s)"

definition stateDot0 :: "scanner \<Rightarrow> char \<Rightarrow> opcode \<times> scanner" where
  "stateDot0 s c =
     (if isDigit c then (ScanContinue, s)
      else if c = CHR ''e'' \<or> c = CHR ''E'' then (ScanContinue, s\<lparr>step := StateE\<rparr>)
      else stateEndValue s c)"

definition stateESign :: "scanner \<Rightarrow> char \<Rightarrow> opcode \<times> scanner" where
  "stateESign s c = expect (isDigit c) StateE0 s"

definition stateE :: "scanner \<Rightarrow> char \<Rightarrow> opcode \<times> scanner" where
  "stateE s c =
     (if c = CHR ''+'' \<or> c = CHR ''-'' then (ScanContinue, s\<lparr>step := StateESign\<rparr>)
      else stateESign s c)"

definition stateE0 :: "scanner \<Rightarrow> char \<Rightarrow> opcode \<times> scanner" where
  "stateE0 s c = (if isDigit c then (ScanContinue, s) else stateEndValue s c)"

text \<open>The dispatch on \<open>s.step\<close>.\<close>

definition scan_step :: "scanner \<Rightarrow> char \<Rightarrow> opcode \<times> scanner" where
  "scan_step s c =
     (case step s of
        StateBeginValueOrEmpty \<Rightarrow> stateBeginValueOrEmpty s c
      | StateBeginValue \<Rightarrow> stateBeginValue s c
      | StateBeginStringOrEmpty \<Rightarrow> stateBeginStringOrEmpty s c
      | StateBeginString \<Rightarrow> stateBeginString s c
      | StateEndValue \<Rightarrow> stateEndValue s c
      | StateEndTop \<Rightarrow> stateEndTop s c
      | StateInString \<Rightarrow> stateInString s c
      | StateInStringEsc \<Rightarrow> stateInStringEsc s c
      | StateInStringEscU \<Rightarrow> expect (isHex c) StateInStringEscU1 s
      | StateInStringEscU1 \<Rightarrow> expect (isHex c) StateInStringEscU12 s
      | StateInStringEscU12 \<Rightarrow> expect (isHex c) StateInStringEscU123 s
      | StateInStringEscU123 \<Rightarrow> expect (isHex c) StateInString s
      | StateNeg \<Rightarrow> stateNeg s c
      | State1 \<Rightarrow> state1 s c
      | State0 \<Rightarrow> state0 s c
      | StateDot \<Rightarrow> expect (isDigit c) StateDot0 s
      | StateDot0 \<Rightarrow> stateDot0 s c
      | StateE \<Rightarrow> stateE s c
      | StateESign \<Rightarrow> stateESign s c
      | StateE0 \<Rightarrow> stateE0 s c
      | StateT \<Rightarrow> expect (c = CHR ''r'') StateTr s
      | StateTr \<Rightarrow> expect (c = CHR ''u'') StateTru s
      | StateTru \<Rightarrow> expect (c = CHR ''e'') StateEndValue s
      | StateF \<Rightarrow> expect (c = CHR ''a'') StateFa s
      | StateFa \<Rightarrow> expect (c = CHR ''l'') StateFal s
      | StateFal \<Rightarrow> expect (c = CHR ''s'') StateFals s
      | StateFals \<Rightarrow> expect (c = CHR ''e'') StateEndValue s
      | StateN \<Rightarrow> expect (c = CHR ''u'') StateNu s
      | StateNu \<Rightarrow> expect (c = CHR ''l'') StateNul s
      | StateNul \<Rightarrow> expect (c = CHR ''l'') StateEndValue s
      | StateError \<Rightarrow> (ScanError, s))"

text \<open>
  \<open>eof\<close> tells the scanner that the input has ended: a value still open (a number, for
  one) is ended by a space.
\<close>

definition eof :: "scanner \<Rightarrow> opcode" where
  "eof s =
     (if scanErr s then ScanError
      else if endTop s then ScanEnd
      else if endTop (snd (scan_step s CHR '' '')) then ScanEnd
      else ScanError)"

fun checkValid_loop :: "scanner \<Rightarrow> string \<Rightarrow> unmarshal_error option" where
  "checkValid_loop s [] = (if eof s = ScanError then Some SyntaxError else None)"
| "checkValid_loop s (c # cs) =
     (case scan_step s c of
        (opc, s') \<Rightarrow> if opc = ScanError then Some SyntaxError else checkValid_loop s' cs)"

definition checkValid :: "string \<Rightarrow> unmarshal_error option" where
  "checkValid data = checkValid_loop reset data"

subsection \<open>encoding/json: string literals\<close>

text \<open>
  \<open>unquoteBytes\<close> (decode.go) turns a string literal into the bytes it denotes: escapes
  are replaced, a \<open>\u\<close> escape becomes the UTF-8 encoding of its code point (two escapes
  for a surrogate pair become one code point), and bytes that are not well-formed UTF-8
  become U+FFFD. It relies on \<open>utf8.DecodeRune\<close>, \<open>utf8.EncodeRune\<close> and
  \<open>utf16.DecodeRune\<close>. Code points are natural numbers here.
\<close>

definition RuneError :: nat where
  "RuneError = 0xFFFD"

definition byte_in :: "char \<Rightarrow> nat \<Rightarrow> nat \<Rightarrow> bool" where
  "byte_in b lo hi = (lo \<le> of_char b \<and> (of_char b :: nat) \<le> hi)"

definition contb :: "char \<Rightarrow> nat" where
  "contb b = (of_char b :: nat) mod 64"

text \<open>
  \<open>utf8.DecodeRune\<close>: the code point at the head of \<open>p\<close> and the number of bytes it
  takes; \<open>(RuneError, 1)\<close> where the bytes are not a well-formed encoding and
  \<open>(RuneError, 0)\<close> for no bytes.
\<close>

definition DecodeRune :: "string \<Rightarrow> nat \<times> nat" where
  "DecodeRune p =
     (case p of
        [] \<Rightarrow> (RuneError, 0)
      | p0 # rest \<Rightarrow>
          (let x = (of_char p0 :: nat) in
           if x < 0x80 then (x, 1)
           else if x < 0xC2 \<or> 0xF4 < x then (RuneError, 1)
           else if x < 0xE0 then
             (case rest of
                b1 # _ \<Rightarrow>
                  if byte_in b1 0x80 0xBF then ((x mod 32) * 64 + contb b1, 2) else (RuneError, 1)
              | _ \<Rightarrow> (RuneError, 1))
           else if x < 0xF0 then
             (case rest of
                b1 # b2 # _ \<Rightarrow>
                  if byte_in b1 (if x = 0xE0 then 0xA0 else 0x80) (if x = 0xED then 0x9F else 0xBF)
                     \<and> byte_in b2 0x80 0xBF
                  then ((x mod 16) * 4096 + contb b1 * 64 + contb b2, 3)
                  else (RuneError, 1)
              | _ \<Rightarrow> (RuneError, 1))
           else
             (case rest of
                b1 # b2 # b3 # _ \<Rightarrow>
                  if byte_in b1 (if x = 0xF0 then 0x90 else 0x80) (if x = 0xF4 then 0x8F else 0xBF)
                     \<and> byte_in b2 0x80 0xBF \<and> byte_in b3 0x80 0xBF
                  then ((x mod 8) * 262144 + contb b1 * 4096 + contb b2 * 64 + contb b3, 4)
                  else (RuneError, 1)
              | _ \<Rightarrow> (RuneError, 1))))"

definition IsSurrogate :: "nat \<Rightarrow> bool" where
  "IsSurrogate r = (0xD800 \<le> r \<and> r < 0xE000)"

definition EncodeRune :: "nat \<Rightarrow> string" where
  "EncodeRune r =
     (if r \<le> 0x7F then [char_of r]
      else if r \<le> 0x7FF then [char_of (0xC0 + r div 64), char_of (0x80 + r mod 64)]
      else if 0x10FFFF < r \<or> IsSurrogate r then [CHR 0xEF, CHR 0xBF, CHR 0xBD]
      else if r \<le> 0xFFFF then
        [char_of (0xE0 + r div 4096), char_of (0x80 + (r div 64) mod 64), char_of (0x80 + r mod 64)]
      else
        [char_of (0xF0 + r div 262144), char_of (0x80 + (r div 4096) mod 64),
         char_of (0x80 + (r div 64) mod 64), char_of (0x80 + r mod 64)])"

text \<open>\<open>utf16.DecodeRune\<close>; the second half is \<open>None\<close> where Go passes \<open>-1\<close>.\<close>

definition utf16_DecodeRune :: "nat \<Rightarrow> nat option \<Rightarrow> nat" where
  "utf16_DecodeRune r1 r2 =
     (case r2 of
        None \<Rightarrow> RuneError
      | Some r2' \<Rightarrow>
          if 0xD800 \<le> r1 \<and> r1 < 0xDC00 \<and> 0xDC00 \<le> r2' \<and> r2' < 0xE000
          then (r1 - 0xD800) * 1024 + (r2' - 0xDC00) + 0x10000
          else RuneError)"

definition hexval :: "char \<Rightarrow> nat option" where
  "hexval c =
     (if between (CHR ''0'') c (CHR ''9'') then Some (of_char c - 48)
      else if between (CHR ''a'') c (CHR ''f'') then Some (of_char c - 97 + 10)
      else if between (CHR ''A'') c (CHR ''F'') then Some (of_char c - 65 + 10)
      else None)"

text \<open>\<open>getu4\<close>: the code unit of a \<open>\uXXXX\<close> at the head of \<open>s\<close>; \<open>None\<close> is Go's \<open>-1\<close>.\<close>

definition getu4 :: "string \<Rightarrow> nat option" where
  "getu4 s =
     (case s of
        b # u # h1 # h2 # h3 # h4 # _ \<Rightarrow>
          if b = CHR 0x5C \<and> u = CHR ''u'' then
            (case (hexval h1, hexval h2, hexval h3, hexval h4) of
               (Some d1, Some d2, Some d3, Some d4) \<Rightarrow> Some (((d1 * 16 + d2) * 16 + d3) * 16 + d4)
             | _ \<Rightarrow> None)
          else None
      | _ \<Rightarrow> None)"

definition prepend :: "string \<Rightarrow> string option \<Rightarrow> string option" where
  "prepend xs r = map_option (\<lambda>ys. xs @ ys) r"

text \<open>
  The loop of \<open>unquoteBytes\<close> over the bytes between the quotes; \<open>None\<close> is its
  \<open>ok = false\<close>.
\<close>

fun unquote_loop :: "string \<Rightarrow> string option" where
  "unquote_loop [] = Some []"
| "unquote_loop (c # cs) =
     (if c = CHR 0x5C then
        (case cs of
           [] \<Rightarrow> None
         | e # rest \<Rightarrow>
             if e = CHR 0x22 \<or> e = CHR 0x5C \<or> e = CHR ''/'' \<or> e = CHR 0x27 then prepend [e] (unquote_loop rest)
             else if e = CHR ''b'' then prepend [CHR 0x08] (unquote_loop rest)
             else if e = CHR ''f'' then prepend [CHR 0x0C] (unquote_loop rest)
             else if e = CHR ''n'' then prepend [CHR 0x0A] (unquote_loop rest)
             else if e = CHR ''r'' then prepend [CHR 0x0D] (unquote_loop rest)
             else if e = CHR ''t'' then prepend [CHR 0x09] (unquote_loop rest)
             else if e = CHR ''u'' then
               (case getu4 (c # cs) of
                  None \<Rightarrow> None
                | Some rr \<Rightarrow>
                    if IsSurrogate rr \<and> utf16_DecodeRune rr (getu4 (drop 5 cs)) \<noteq> RuneError
                    then prepend (EncodeRune (utf16_DecodeRune rr (getu4 (drop 5 cs))))
                           (unquote_loop (drop 11 cs))
                    else if IsSurrogate rr then prepend (EncodeRune RuneError) (unquote_loop (drop 5 cs))
                    else prepend (EncodeRune rr) (unquote_loop (drop 5 cs)))
             else None)
      else if c = CHR 0x22 \<or> c < CHR 0x20 then None
      else if c < CHR 0x80 then prepend [c] (unquote_loop cs)
      else prepend (EncodeRune (fst (DecodeRune (c # cs))))
             (unquote_loop (drop (snd (DecodeRune (c # cs)) - 1) cs)))"

definition unquoteBytes :: "string \<Rightarrow> string option" where
  "unquoteBytes s =
     (if length s < 2 \<or> hd s \<noteq> CHR 0x22 \<or> last s \<noteq> CHR 0x22 then None
      else unquote_loop (butlast (tl s)))"

subsection \<open>encoding/json: the value a text denotes\<close>

text \<open>
  After \<open>checkValid\<close> the decoder walks the text with the same scanner and stores what it
  meets into the Go value. What it meets is a JSON value: the walk is modelled by
  building that value (an object keeps its members in the order of the text, duplicates
  too; a number keeps its text), and the store by a function of the value.
\<close>

datatype json =
    JNull | JBool bool | JNumber string | JString string
  | JArray "json list" | JObject "(string \<times> json) list"

text \<open>
  A literal is told by its first byte, as \<open>literalStore\<close> does. \<open>None\<close> is where Go's
  decoder panics with \<open>phasePanicMsg\<close> (a literal the scanner would not have let
  through).
\<close>

definition literal_value :: "string \<Rightarrow> json option" where
  "literal_value item =
     (case item of
        [] \<Rightarrow> None
      | c # _ \<Rightarrow>
          if c = CHR ''n'' then Some JNull
          else if c = CHR ''t'' then Some (JBool True)
          else if c = CHR ''f'' then Some (JBool False)
          else if c = CHR 0x22 then map_option JString (unquoteBytes item)
          else if c = CHR ''-'' \<or> isDigit c then Some (JNumber item)
          else None)"

text \<open>
  The arrays and objects that are open, innermost first, each with the members read so
  far (an object also with the key whose value is awaited); the literal being read;
  the finished top-level value; and whether the walk lost step with the scanner.
\<close>

datatype frame = ObjectFrame "(string \<times> json) list" "string option" | ArrayFrame "json list"

record builder =
  literal :: "string option"
  frames :: "frame list"
  top :: "json option"
  outOfSync :: bool

definition new_builder :: builder where
  "new_builder = \<lparr>literal = None, frames = [], top = None, outOfSync = False\<rparr>"

text \<open>A finished value goes to the innermost open array or object, or is the top-level value.\<close>

definition deliver :: "json \<Rightarrow> builder \<Rightarrow> builder" where
  "deliver v b =
     (case frames b of
        [] \<Rightarrow> b\<lparr>top := Some v\<rparr>
      | ArrayFrame vs # fs \<Rightarrow> b\<lparr>frames := ArrayFrame (vs @ [v]) # fs\<rparr>
      | ObjectFrame kvs (Some k) # fs \<Rightarrow> b\<lparr>frames := ObjectFrame (kvs @ [(k, v)]) None # fs\<rparr>
      | ObjectFrame kvs None # fs \<Rightarrow>
          (case v of
             JString k \<Rightarrow> b\<lparr>frames := ObjectFrame kvs (Some k) # fs\<rparr>
           | _ \<Rightarrow> b\<lparr>outOfSync := True\<rparr>))"

text \<open>The literal being read, if any, has ended.\<close>

definition flush :: "builder \<Rightarrow> builder" where
  "flush b =
     (case literal b of
        None \<Rightarrow> b
      | Some item \<Rightarrow>
          (case literal_value item of
             None \<Rightarrow> b\<lparr>literal := None, outOfSync := True\<rparr>
           | Some v \<Rightarrow> deliver v (b\<lparr>literal := None\<rparr>)))"

definition close_frame :: "bool \<Rightarrow> builder \<Rightarrow> builder" where
  "close_frame is_object b =
     (case frames b of
        ObjectFrame kvs None # fs \<Rightarrow>
          if is_object then deliver (JObject kvs) (b\<lparr>frames := fs\<rparr>) else b\<lparr>outOfSync := True\<rparr>
      | ArrayFrame vs # fs \<Rightarrow>
          if is_object then b\<lparr>outOfSync := True\<rparr> else deliver (JArray vs) (b\<lparr>frames := fs\<rparr>)
      | _ \<Rightarrow> b\<lparr>outOfSync := True\<rparr>)"

text \<open>What the opcode the scanner returned on byte \<open>c\<close> means for the value.\<close>

definition on_opcode :: "opcode \<Rightarrow> char \<Rightarrow> builder \<Rightarrow> builder" where
  "on_opcode opc c b =
     (case opc of
        ScanContinue \<Rightarrow> b\<lparr>literal := map_option (\<lambda>item. item @ [c]) (literal b)\<rparr>
      | ScanBeginLiteral \<Rightarrow> (flush b)\<lparr>literal := Some [c]\<rparr>
      | ScanBeginObject \<Rightarrow> b\<lparr>frames := ObjectFrame [] None # frames b\<rparr>
      | ScanBeginArray \<Rightarrow> b\<lparr>frames := ArrayFrame [] # frames b\<rparr>
      | ScanEndObject \<Rightarrow> close_frame True (flush b)
      | ScanEndArray \<Rightarrow> close_frame False (flush b)
      | ScanError \<Rightarrow> b\<lparr>outOfSync := True\<rparr>
      | _ \<Rightarrow> flush b)"

fun build_loop :: "scanner \<Rightarrow> builder \<Rightarrow> string \<Rightarrow> builder" where
  "build_loop s b [] = flush b"
| "build_loop s b (c # cs) =
     (case scan_step s c of (opc, s') \<Rightarrow> build_loop s' (on_opcode opc c b) cs)"

definition value_of :: "string \<Rightarrow> json option" where
  "value_of data =
     (let b = build_loop reset new_builder data in if outOfSync b then None else top b)"

subsection \<open>encoding/json: Unmarshal\<close>

text \<open>
  \<open>json.Unmarshal(data, &v)\<close> returns the syntax error of \<open>checkValid\<close> and leaves \<open>v\<close>
  as it was, or stores the value into \<open>v\<close> and returns the first type error it saved
  (\<open>d.savedError\<close>). \<open>store\<close> is the store for the type of \<open>v\<close>. The call returns, or
  panics where the decoder loses step with the scanner.
\<close>

datatype 'a outcome = Returns 'a | Panics

definition json_Unmarshal ::
  "(json \<Rightarrow> 'v \<Rightarrow> 'v \<times> unmarshal_error option) \<Rightarrow> string \<Rightarrow> 'v \<Rightarrow> ('v \<times> unmarshal_error option) outcome" where
  "json_Unmarshal store data v =
     (case checkValid data of
        Some e \<Rightarrow> Returns (v, Some e)
      | None \<Rightarrow>
          (case value_of data of
             None \<Rightarrow> Panics
           | Some j \<Rightarrow> Returns (store j v)))"

text \<open>
  The response of CreateCatalog is the anonymous \<open>struct { ID string `json:"id"` }\<close>.
\<close>

record IDResponse =
  ID :: string

text \<open>
  A member of an object goes to the field whose name is its key, or else to the field
  whose name is its key up to case. For the one field \<open>id\<close> that is equality up to the
  case of ASCII letters (no other character folds to \<open>i\<close> or \<open>d\<close>).
\<close>

definition toUpperASCII :: "char \<Rightarrow> char" where
  "toUpperASCII c = (if between (CHR ''a'') c (CHR ''z'') then char_of ((of_char c :: nat) - 32) else c)"

definition matchesField :: "string \<Rightarrow> string \<Rightarrow> bool" where
  "matchesField name key = (key = name \<or> map toUpperASCII key = map toUpperASCII name)"

text \<open>
  Storing a value into a field of type \<open>string\<close>: a string is stored, \<open>null\<close> leaves the
  field as it is, anything else is a type error and leaves the field as it is.
\<close>

fun storeString :: "json \<Rightarrow> string \<Rightarrow> string \<times> unmarshal_error option" where
  "storeString (JString s) old = (s, None)"
| "storeString JNull old = (old, None)"
| "storeString (JBool b) old = (old, Some (UnmarshalTypeError ''bool''))"
| "storeString (JNumber n) old = (old, Some (UnmarshalTypeError ''number''))"
| "storeString (JArray vs) old = (old, Some (UnmarshalTypeError ''array''))"
| "storeString (JObject kvs) old = (old, Some (UnmarshalTypeError ''object''))"

text \<open>\<open>saveError\<close> keeps the first error.\<close>

definition saveError :: "unmarshal_error option \<Rightarrow> unmarshal_error option \<Rightarrow> unmarshal_error option" where
  "saveError saved e = (case saved of None \<Rightarrow> e | Some first \<Rightarrow> Some first)"

text \<open>The members of an object, in order, into the struct; members of other names are skipped.\<close>

fun storeMembers ::
  "(string \<times> json) list \<Rightarrow> IDResponse \<times> unmarshal_error option \<Rightarrow> IDResponse \<times> unmarshal_error option" where
  "storeMembers [] acc = acc"
| "storeMembers ((key, v) # kvs) (resp, saved) =
     (if matchesField ''id'' key
      then (case storeString v (ID resp) of
              (s, e) \<Rightarrow> storeMembers kvs (resp\<lparr>ID := s\<rparr>, saveError saved e))
      else storeMembers kvs (resp, saved))"

text \<open>
  Storing a value into the struct: an object member by member, \<open>null\<close> nothing, any
  other value is a type error.
\<close>

fun storeIDResponse :: "json \<Rightarrow> IDResponse \<Rightarrow> IDResponse \<times> unmarshal_error option" where
  "storeIDResponse (JObject kvs) resp = storeMembers kvs (resp, None)"
| "storeIDResponse JNull resp = (resp, None)"
| "storeIDResponse (JBool b) resp = (resp, Some (UnmarshalTypeError ''bool''))"
| "storeIDResponse (JNumber n) resp = (resp, Some (UnmarshalTypeError ''number''))"
| "storeIDResponse (JString s) resp = (resp, Some (UnmarshalTypeError ''string''))"
| "storeIDResponse (JArray vs) resp = (resp, Some (UnmarshalTypeError ''array''))"

text \<open>
  Modelled from the spec: the struct \<open>ProductCreateResponse\<close> is declared outside
  catalog.go, which only reads its field \<open>ID\<close> as a string. The spec says that
  CreateProduct "decodes returned \<open>id\<close>" from a response such as \<open>{"id":"pid_1"}\<close>:
  it is taken to be the same one-field struct as the response of CreateCatalog.
\<close>

definition storeProductCreateResponse :: "json \<Rightarrow> IDResponse \<Rightarrow> IDResponse \<times> unmarshal_error option" where
  "storeProductCreateResponse = storeIDResponse"

text \<open>
  \<open>CatalogListResponse\<close> and \<open>ProductListResponse\<close> are declared outside catalog.go
  too, with the element types \<open>CatalogInfo\<close> and \<open>ProductInfo\<close>: catalog.go reads their
  field \<open>Data\<close>, a slice (\<open>None\<close> is the \<open>nil\<close> slice). The element type is a type
  variable and the store for the struct a parameter of the two list operations.
\<close>

record 'a ListResponse =
  Data :: "'a list option"

subsection \<open>net/url: Values and QueryEscape\<close>

text \<open>
  \<open>url.Values\<close> maps a key to the list of its values: an association list with one
  entry for each key. \<open>Encode\<close> writes \<open>key=value\<close> pairs joined by \<open>&\<close>, sorted by key,
  each side escaped by \<open>QueryEscape\<close>: letters, digits and \<open>-_.~\<close> stay, a space becomes
  \<open>+\<close>, any other byte becomes \<open>%XX\<close> in upper-case hexadecimal.
\<close>

type_synonym Values = "(string \<times> string list) list"

definition Values_Add :: "Values \<Rightarrow> string \<Rightarrow> string \<Rightarrow> Values" where
  "Values_Add v key val =
     (if key \<in> fst ` set v
      then map (\<lambda>(k, vs). if k = key then (k, vs @ [val]) else (k, vs)) v
      else v @ [(key, [val])])"

definition shouldEscape :: "char \<Rightarrow> bool" where
  "shouldEscape c =
     (if between (CHR ''a'') c (CHR ''z'') \<or> between (CHR ''A'') c (CHR ''Z'') \<or> between (CHR ''0'') c (CHR ''9'')
      then False
      else if c = CHR ''-'' \<or> c = CHR ''_'' \<or> c = CHR ''.'' \<or> c = CHR ''~'' then False
      else True)"

definition upperhex :: "nat \<Rightarrow> char" where
  "upperhex n = ''0123456789ABCDEF'' ! (n mod 16)"

definition escape_byte :: "char \<Rightarrow> string" where
  "escape_byte c =
     (if c = CHR '' '' then ''+''
      else if shouldEscape c
      then [CHR ''%'', upperhex ((of_char c :: nat) div 16), upperhex ((of_char c :: nat) mod 16)]
      else [c])"

definition QueryEscape :: "string \<Rightarrow> string" where
  "QueryEscape s = concat (map escape_byte s)"

fun join_amp :: "string list \<Rightarrow> string" where
  "join_amp [] = []"
| "join_amp [p] = p"
| "join_amp (p # q # ps) = p @ ''&'' @ join_amp (q # ps)"

definition Values_Encode :: "Values \<Rightarrow> string" where
  "Values_Encode v =
     join_amp (concat (map (\<lambda>(k, vs). map (\<lambda>val. QueryEscape k @ ''='' @ QueryEscape val) vs)
                         (sort_key fst v)))"

subsection \<open>The operations that decode a response\<close>

text \<open>
  Each returns the pair \<open>(result, error)\<close> of the Go function, or panics where
  \<open>json.Unmarshal\<close> does, and the world the transport left.
\<close>

definition CreateCatalog ::
  "('ctx, 'w, 'e) Client \<Rightarrow> 'ctx \<Rightarrow> Account \<Rightarrow> string \<Rightarrow> 'w
     \<Rightarrow> (string \<times> 'e error option) outcome \<times> 'w" where
  "CreateCatalog c ctx account name w =
     (let apiURL = buildCatalogsURL c account;
          body = [''name'' \<mapsto> name]
      in case doRequest c ctx MethodPost apiURL (Some body) (AccessToken account) w of
        ((respBody, Some e), w') \<Rightarrow> (Returns ([], Some (RequestError e)), w')
      | ((respBody, None), w') \<Rightarrow>
          (case json_Unmarshal storeIDResponse respBody \<lparr>ID = []\<rparr> of
             Panics \<Rightarrow> (Panics, w')
           | Returns (resp, Some perr) \<Rightarrow> (Returns ([], Some (DecodeError perr)), w')
           | Returns (resp, None) \<Rightarrow> (Returns (ID resp, None), w')))"

definition ListCatalogs ::
  "(json \<Rightarrow> 'a ListResponse \<Rightarrow> 'a ListResponse \<times> unmarshal_error option)
     \<Rightarrow> ('ctx, 'w, 'e) Client \<Rightarrow> 'ctx \<Rightarrow> Account \<Rightarrow> 'w
     \<Rightarrow> ('a list option \<times> 'e error option) outcome \<times> 'w" where
  "ListCatalogs storeCatalogListResponse c ctx account w =
     (let apiURL = buildCatalogsURL c account
      in case doRequest c ctx MethodGet apiURL None (AccessToken account) w of
        ((respBody, Some e), w') \<Rightarrow> (Returns (None, Some (RequestError e)), w')
      | ((respBody, None), w') \<Rightarrow>
          (case json_Unmarshal storeCatalogListResponse respBody \<lparr>Data = None\<rparr> of
             Panics \<Rightarrow> (Panics, w')
           | Returns (resp, Some perr) \<Rightarrow> (Returns (None, Some (DecodeError perr)), w')
           | Returns (resp, None) \<Rightarrow> (Returns (Data resp, None), w')))"

definition ListCatalogProducts ::
  "(json \<Rightarrow> 'a ListResponse \<Rightarrow> 'a ListResponse \<times> unmarshal_error option)
     \<Rightarrow> ('ctx, 'w, 'e) Client \<Rightarrow> 'ctx \<Rightarrow> Account \<Rightarrow> string \<Rightarrow> 'w
     \<Rightarrow> ('a list option \<times> 'e error option) outcome \<times> 'w" where
  "ListCatalogProducts storeProductListResponse c ctx account catalogID w =
     (let apiURL0 = buildCatalogProductsURL c account catalogID;
          params = Values_Add [] ''fields'' ''id,name,price,currency,url,image_url,retailer_id,description'';
          apiURL = apiURL0 @ ''?'' @ Values_Encode params
      in case doRequest c ctx MethodGet apiURL None (AccessToken account) w of
        ((respBody, Some e), w') \<Rightarrow> (Returns (None, Some (RequestError e)), w')
      | ((respBody, None), w') \<Rightarrow>
          (case json_Unmarshal storeProductListResponse respBody \<lparr>Data = None\<rparr> of
             Panics \<Rightarrow> (Panics, w')
           | Returns (resp, Some perr) \<Rightarrow> (Returns (None, Some (DecodeError perr)), w')
           | Returns (resp, None) \<Rightarrow> (Returns (Data resp, None), w')))"

text \<open>Lines 101 to 115 of catalog.go: the body that CreateProduct sends.\<close>

definition CreateProduct_body :: "ProductInput \<Rightarrow> (string \<rightharpoonup> string)" where
  "CreateProduct_body product =
     (let priceStr = FormatInt (Price product);
          body = [''name'' \<mapsto> Name product,
                  ''price'' \<mapsto> priceStr,
                  ''currency'' \<mapsto> Currency product,
                  ''url'' \<mapsto> URL product,
                  ''image_url'' \<mapsto> ImageURL product,
                  ''retailer_id'' \<mapsto> RetailerID product]
      in if Description product \<noteq> [] then body(''description'' \<mapsto> Description product) else body)"

definition CreateProduct ::
  "('ctx, 'w, 'e) Client \<Rightarrow> 'ctx \<Rightarrow> Account \<Rightarrow> string \<Rightarrow> ProductInput \<Rightarrow> 'w
     \<Rightarrow> (string \<times> 'e error option) outcome \<times> 'w" where
  "CreateProduct c ctx account catalogID product w =
     (let apiURL = buildCatalogProductsURL c account catalogID;
          body = CreateProduct_body product
      in case doRequest c ctx MethodPost apiURL (Some body) (AccessToken account) w of
        ((respBody, Some e), w') \<Rightarrow> (Returns ([], Some (RequestError e)), w')
      | ((respBody, None), w') \<Rightarrow>
          (case json_Unmarshal storeProductCreateResponse respBody \<lparr>ID = []\<rparr> of
             Panics \<Rightarrow> (Panics, w')
           | Returns (resp, Some perr) \<Rightarrow> (Returns ([], Some (DecodeError perr)), w')
           | Returns (resp, None) \<Rightarrow> (Returns (ID resp, None), w')))"

subsection \<open>The operations that decode nothing\<close>

definition DeleteCatalog ::
  "('ctx, 'w, 'e) Client \<Rightarrow> 'ctx \<Rightarrow> Account \<Rightarrow> string \<Rightarrow> 'w \<Rightarrow> 'e error option \<times> 'w" where
  "DeleteCatalog c ctx account catalogID w =
     (let apiURL = getBaseURL c @ ''/'' @ APIVersion account @ ''/'' @ catalogID in
      case doRequest c ctx MethodDelete apiURL None (AccessToken account) w of
        ((respBody, err), w') \<Rightarrow> (map_option RequestError err, w'))"

text \<open>
  Lines 134 to 153 of catalog.go: the body that UpdateProduct sends, one conditional
  assignment after the other, starting from the empty map.
\<close>

definition UpdateProduct_body :: "ProductInput \<Rightarrow> (string \<rightharpoonup> string)" where
  "UpdateProduct_body product =
     (let body0 = Map.empty;
          body1 = (if Name product \<noteq> [] then body0(''name'' \<mapsto> Name product) else body0);
          body2 = (if 0 <s Price product then body1(''price'' \<mapsto> FormatInt (Price product)) else body1);
          body3 = (if Currency product \<noteq> [] then body2(''currency'' \<mapsto> Currency product) else body2);
          body4 = (if URL product \<noteq> [] then body3(''url'' \<mapsto> URL product) else body3);
          body5 = (if ImageURL product \<noteq> [] then body4(''image_url'' \<mapsto> ImageURL product) else body4);
          body6 = (if Description product \<noteq> [] then body5(''description'' \<mapsto> Description product) else body5)
      in body6)"

definition UpdateProduct ::
  "('ctx, 'w, 'e) Client \<Rightarrow> 'ctx \<Rightarrow> Account \<Rightarrow> string \<Rightarrow> ProductInput \<Rightarrow> 'w \<Rightarrow> 'e error option \<times> 'w" where
  "UpdateProduct c ctx account productID product w =
     (let apiURL = buildProductURL c account productID;
          body = UpdateProduct_body product
      in case doRequest c ctx MethodPost apiURL (Some body) (AccessToken account) w of
        ((respBody, err), w') \<Rightarrow> (map_option RequestError err, w'))"

definition DeleteProduct ::
  "('ctx, 'w, 'e) Client \<Rightarrow> 'ctx \<Rightarrow> Account \<Rightarrow> string \<Rightarrow> 'w \<Rightarrow> 'e error option \<times> 'w" where
  "DeleteProduct c ctx account productID w =
     (let apiURL = buildProductURL c account productID in
      case doRequest c ctx MethodDelete apiURL None (AccessToken account) w of
        ((respBody, err), w') \<Rightarrow> (map_option RequestError err, w'))"

subsection \<open>A transport that records its calls\<close>

text \<open>
  To speak of the request an operation issues, the operations are run on a client whose
  world is the list of the calls made so far: each call is appended to it and answered
  by \<open>respond\<close>.
\<close>

type_synonym 'ctx call = "'ctx \<times> string \<times> string \<times> body \<times> string"

definition recordingClient ::
  "string \<Rightarrow> ('ctx call \<Rightarrow> string \<times> 'e option) \<Rightarrow> ('ctx, 'ctx call list, 'e) Client" where
  "recordingClient base respond =
     \<lparr>getBaseURL = base,
      doRequest = (\<lambda>ctx method url body token calls.
        (respond (ctx, method, url, body, token), calls @ [(ctx, method, url, body, token)]))\<rparr>"

text \<open>Two ways to answer: with a response body, or with a failure.\<close>

definition respondWith :: "string \<Rightarrow> 'ctx call \<Rightarrow> string \<times> 'e option" where
  "respondWith respBody call = (respBody, None)"

definition failWith :: "'e \<Rightarrow> 'ctx call \<Rightarrow> string \<times> 'e option" where
  "failWith e call = ([], Some e)"

text \<open>The parts of a recorded call.\<close>

definition call_method :: "'ctx call \<Rightarrow> string" where
  "call_method call = fst (snd call)"

definition call_url :: "'ctx call \<Rightarrow> string" where
  "call_url call = fst (snd (snd call))"

definition call_body :: "'ctx call \<Rightarrow> body" where
  "call_body call = fst (snd (snd (snd call)))"

subsection \<open>Notions the properties are stated with\<close>

text \<open>The number a string of decimal digits denotes, most significant digit first.\<close>

definition decimal_value :: "string \<Rightarrow> nat" where
  "decimal_value s = foldl (\<lambda>n c. 10 * n + ((of_char c :: nat) - 48)) 0 s"

text \<open>The values of the members of an object that go to the field \<open>id\<close>, in order.\<close>

definition id_members :: "(string \<times> json) list \<Rightarrow> json list" where
  "id_members kvs = map snd (filter (\<lambda>kv. matchesField ''id'' (fst kv)) kvs)"

fun string_or_null :: "json \<Rightarrow> bool" where
  "string_or_null (JString s) = True"
| "string_or_null JNull = True"
| "string_or_null v = False"

text \<open>The JSON kind named in the type error for a value that is no object and not \<open>null\<close>.\<close>

fun kind_name :: "json \<Rightarrow> string" where
  "kind_name (JBool b) = ''bool''"
| "kind_name (JNumber n) = ''number''"
| "kind_name (JString s) = ''string''"
| "kind_name (JArray vs) = ''array''"
| "kind_name (JObject kvs) = ''object''"
| "kind_name JNull = ''null''"

text \<open>The one call of the transport that CreateCatalog and CreateProduct make.\<close>

definition CreateCatalog_call ::
  "('ctx, 'w, 'e) Client \<Rightarrow> 'ctx \<Rightarrow> Account \<Rightarrow> string \<Rightarrow> 'w \<Rightarrow> (string \<times> 'e option) \<times> 'w" where
  "CreateCatalog_call c ctx account name w =
     doRequest c ctx MethodPost (buildCatalogsURL c account) (Some [''name'' \<mapsto> name])
       (AccessToken account) w"

definition CreateProduct_call ::
  "('ctx, 'w, 'e) Client \<Rightarrow> 'ctx \<Rightarrow> Account \<Rightarrow> string \<Rightarrow> ProductInput \<Rightarrow> 'w
     \<Rightarrow> (string \<times> 'e option) \<times> 'w" where
  "CreateProduct_call c ctx account catalogID product w =
     doRequest c ctx MethodPost (buildCatalogProductsURL c account catalogID)
       (Some (CreateProduct_body product)) (AccessToken account) w"

text \<open>The inputs of the examples.\<close>

definition shirt :: ProductInput where
  "shirt = \<lparr>Name = ''Shirt'', Price = 1999, Currency = ''USD'', URL = ''https://x/y'',
            ImageURL = ''https://x/img.png'', RetailerID = ''sku-1'', Description = []\<rparr>"

definition acct :: Account where
  "acct = \<lparr>APIVersion = ''v21.0'', BusinessID = ''1029384756'', AccessToken = ''EAAG''\<rparr>"

definition graph :: string where
  "graph = ''https://graph.facebook.com''"

text \<open>
  A store for the list responses that stores nothing: it stands for the parameter of the
  list operations in examples where the response is never decoded.
\<close>

definition keepResponse :: "json \<Rightarrow> unit ListResponse \<Rightarrow> unit ListResponse \<times> unmarshal_error option" where
  "keepResponse j resp = (resp, None)"

section \<open>Properties\<close>

subsection \<open>One transport call for each operation\<close>

lemma recording_doRequest:
  "doRequest (recordingClient base respond) ctx m u b t calls =
     (respond (ctx, m, u, b, t), calls @ [(ctx, m, u, b, t)])"
  by (simp add: recordingClient_def)

lemma recording_getBaseURL: "getBaseURL (recordingClient base respond) = base"
  by (simp add: recordingClient_def)

text \<open>
  The world an operation leaves is the world its one call of the transport leaves: the
  request is the one written here, and nothing is called after it.
\<close>

lemma CreateCatalog_world:
  "snd (CreateCatalog c ctx a name w) =
     snd (doRequest c ctx MethodPost (buildCatalogsURL c a) (Some [''name'' \<mapsto> name]) (AccessToken a) w)"
  by (simp add: CreateCatalog_def split: prod.split option.split outcome.split)

lemma ListCatalogs_world:
  "snd (ListCatalogs store c ctx a w) =
     snd (doRequest c ctx MethodGet (buildCatalogsURL c a) None (AccessToken a) w)"
  by (simp add: ListCatalogs_def split: prod.split option.split outcome.split)

lemma ListCatalogProducts_world:
  "snd (ListCatalogProducts store c ctx a cid w) =
     snd (doRequest c ctx MethodGet
            (buildCatalogProductsURL c a cid @ ''?'' @
               Values_Encode (Values_Add [] ''fields'' ''id,name,price,currency,url,image_url,retailer_id,description''))
            None (AccessToken a) w)"
  by (simp add: ListCatalogProducts_def split: prod.split option.split outcome.split)

lemma CreateProduct_world:
  "snd (CreateProduct c ctx a cid p w) =
     snd (doRequest c ctx MethodPost (buildCatalogProductsURL c a cid) (Some (CreateProduct_body p))
            (AccessToken a) w)"
  by (simp add: CreateProduct_def split: prod.split option.split outcome.split)

lemma DeleteCatalog_world:
  "snd (DeleteCatalog c ctx a cid w) =
     snd (doRequest c ctx MethodDelete (getBaseURL c @ ''/'' @ APIVersion a @ ''/'' @ cid) None
            (AccessToken a) w)"
  by (simp add: DeleteCatalog_def split: prod.split)

lemma UpdateProduct_world:
  "snd (UpdateProduct c ctx a pid p w) =
     snd (doRequest c ctx MethodPost (buildProductURL c a pid) (Some (UpdateProduct_body p))
            (AccessToken a) w)"
  by (simp add: UpdateProduct_def split: prod.split)

lemma DeleteProduct_world:
  "snd (DeleteProduct c ctx a pid w) =
     snd (doRequest c ctx MethodDelete (buildProductURL c a pid) None (AccessToken a) w)"
  by (simp add: DeleteProduct_def split: prod.split)

text \<open>The query string of ListCatalogProducts, as \<open>Encode\<close> writes it: the commas are escaped.\<close>

lemma fields_query:
  "Values_Encode (Values_Add [] ''fields'' ''id,name,price,currency,url,image_url,retailer_id,description'')
     = ''fields=id%2Cname%2Cprice%2Ccurrency%2Curl%2Cimage_url%2Cretailer_id%2Cdescription''"
  by code_simp

lemma fields_query_escaped:
  "QueryEscape ''fields'' @ ''='' @ QueryEscape ''id,name,price,currency,url,image_url,retailer_id,description''
     = ''fields=id%2Cname%2Cprice%2Ccurrency%2Curl%2Cimage_url%2Cretailer_id%2Cdescription''"
  by code_simp

subsection \<open>The URLs\<close>

text \<open>
  Claim C6. For every client, account and identifier the three builders return
  \<open>{baseURL}/{apiVersion}/{businessID}/owned_product_catalogs\<close>,
  \<open>{baseURL}/{apiVersion}/{catalogID}/products\<close> and \<open>{baseURL}/{apiVersion}/{id}\<close>; and
  the one request of each operation goes to the URL of its kind: the catalog collection
  for CreateCatalog and ListCatalogs, the product collection for ListCatalogProducts
  (followed by its query string) and CreateProduct, the single resource for
  DeleteCatalog, UpdateProduct and DeleteProduct.
\<close>

theorem request_urls:
  "buildCatalogsURL c a = getBaseURL c @ ''/'' @ APIVersion a @ ''/'' @ BusinessID a @ ''/owned_product_catalogs''
   \<and> buildCatalogProductsURL c a cid = getBaseURL c @ ''/'' @ APIVersion a @ ''/'' @ cid @ ''/products''
   \<and> buildProductURL c a pid = getBaseURL c @ ''/'' @ APIVersion a @ ''/'' @ pid
   \<and> map call_url (snd (CreateCatalog (recordingClient base respond) ctx a name []))
       = [base @ ''/'' @ APIVersion a @ ''/'' @ BusinessID a @ ''/owned_product_catalogs'']
   \<and> map call_url (snd (ListCatalogs store (recordingClient base respond) ctx a []))
       = [base @ ''/'' @ APIVersion a @ ''/'' @ BusinessID a @ ''/owned_product_catalogs'']
   \<and> map call_url (snd (ListCatalogProducts store' (recordingClient base respond) ctx a cid []))
       = [(base @ ''/'' @ APIVersion a @ ''/'' @ cid @ ''/products'') @
            ''?fields=id%2Cname%2Cprice%2Ccurrency%2Curl%2Cimage_url%2Cretailer_id%2Cdescription'']
   \<and> map call_url (snd (CreateProduct (recordingClient base respond) ctx a cid p []))
       = [base @ ''/'' @ APIVersion a @ ''/'' @ cid @ ''/products'']
   \<and> map call_url (snd (DeleteCatalog (recordingClient base respond) ctx a cid []))
       = [base @ ''/'' @ APIVersion a @ ''/'' @ cid]
   \<and> map call_url (snd (UpdateProduct (recordingClient base respond) ctx a pid p []))
       = [base @ ''/'' @ APIVersion a @ ''/'' @ pid]
   \<and> map call_url (snd (DeleteProduct (recordingClient base respond) ctx a pid []))
       = [base @ ''/'' @ APIVersion a @ ''/'' @ pid]"
  by (simp add: CreateCatalog_world ListCatalogs_world ListCatalogProducts_world CreateProduct_world
        DeleteCatalog_world UpdateProduct_world DeleteProduct_world recording_doRequest
        recording_getBaseURL buildCatalogsURL_def buildCatalogProductsURL_def buildProductURL_def
        call_url_def fields_query)

text \<open>
  Claim C10. For every account and identifier \<open>s\<close>, DeleteCatalog, DeleteProduct and
  UpdateProduct send their request to the same URL \<open>{baseURL}/{apiVersion}/{s}\<close>: the
  requests differ in the method (and the body) only. DeleteCatalog and DeleteProduct
  are the same function of the client, the account and the identifier.
\<close>

theorem delete_catalog_url_is_product_url:
  "DeleteCatalog c ctx a s w = DeleteProduct c ctx a s w
   \<and> snd (DeleteCatalog (recordingClient base respond) ctx a s [])
       = [(ctx, ''DELETE'', base @ ''/'' @ APIVersion a @ ''/'' @ s, None, AccessToken a)]
   \<and> snd (DeleteProduct (recordingClient base respond) ctx a s [])
       = [(ctx, ''DELETE'', base @ ''/'' @ APIVersion a @ ''/'' @ s, None, AccessToken a)]
   \<and> snd (UpdateProduct (recordingClient base respond) ctx a s p [])
       = [(ctx, ''POST'', base @ ''/'' @ APIVersion a @ ''/'' @ s, Some (UpdateProduct_body p), AccessToken a)]
   \<and> buildProductURL (recordingClient base respond) a s = base @ ''/'' @ APIVersion a @ ''/'' @ s"
  by (simp add: DeleteCatalog_world DeleteProduct_world UpdateProduct_world recording_doRequest
        recording_getBaseURL buildProductURL_def MethodDelete_def MethodPost_def)
    (simp add: DeleteCatalog_def DeleteProduct_def buildProductURL_def)

subsection \<open>The price as a decimal string\<close>

lemma decimal_value_snoc: "decimal_value (s @ [c]) = 10 * decimal_value s + ((of_char c :: nat) - 48)"
  by (simp add: decimal_value_def)

lemma of_char_digit_char: "d < 10 \<Longrightarrow> (of_char (digit_char d) :: nat) = 48 + d"
  by (simp add: digit_char_def)

lemma isDigit_digit_char: "d < 10 \<Longrightarrow> isDigit (digit_char d)"
  by (simp add: isDigit_def between_def less_eq_char_def of_char_digit_char)

lemma formatBits_nonempty: "formatBits n \<noteq> []"
  by (subst formatBits.simps) simp

lemma formatBits_digits: "list_all isDigit (formatBits n)"
proof (induction n rule: formatBits.induct)
  case (1 u)
  show ?case
  proof (cases "u < 10")
    case True
    then show ?thesis by (subst formatBits.simps) (simp add: isDigit_digit_char)
  next
    case False
    with 1 show ?thesis by (subst formatBits.simps) (simp add: isDigit_digit_char)
  qed
qed

lemma formatBits_value: "decimal_value (formatBits n) = n"
proof (induction n rule: formatBits.induct)
  case (1 u)
  show ?case
  proof (cases "u < 10")
    case True
    then show ?thesis
      by (subst formatBits.simps) (simp add: decimal_value_def of_char_digit_char)
  next
    case False
    with 1 show ?thesis
      by (subst formatBits.simps) (simp add: decimal_value_snoc of_char_digit_char)
  qed
qed

lemma formatBits_no_leading_zero: "0 < n \<Longrightarrow> hd (formatBits n) \<noteq> CHR ''0''"
proof (induction n rule: formatBits.induct)
  case (1 u)
  show ?case
  proof (cases "u < 10")
    case True
    with 1(2) have "(of_char (digit_char u) :: nat) \<noteq> of_char (CHR ''0'')"
      by (simp add: of_char_digit_char)
    then have "digit_char u \<noteq> CHR ''0''" by auto
    with True show ?thesis by (subst formatBits.simps) simp
  next
    case False
    then have "0 < u div 10" by simp
    with 1(1) False have "hd (formatBits (u div 10)) \<noteq> CHR ''0''" by simp
    with False show ?thesis
      by (subst formatBits.simps) (simp add: formatBits_nonempty)
  qed
qed

lemma positive_int64:
  assumes "0 <s (i :: int64)"
  shows "\<not> i <s 0" and "int (unat i) = sint i" and "0 < unat i"
proof -
  from assms have pos: "0 < sint i" by (simp add: word_sless_alt)
  then show "\<not> i <s 0" by (simp add: word_sless_alt)
  have "sint i < 2 ^ 63" using sint_lt [of i] by simp
  with pos have "take_bit 64 (sint i) = sint i" by (simp add: take_bit_int_eq_self)
  then have "uint i = sint i" using uint_sint [of i] by simp
  then show eq: "int (unat i) = sint i" by simp
  with pos show "0 < unat i" by linarith
qed

lemma FormatInt_positive: "0 <s i \<Longrightarrow> FormatInt i = formatBits (unat i)"
  by (simp add: FormatInt_def positive_int64)

lemma CreateProduct_body_price: "CreateProduct_body p ''price'' = Some (FormatInt (Price p))"
  by (simp add: CreateProduct_body_def Let_def)

lemma CreateProduct_calls:
  "snd (CreateProduct (recordingClient base respond) ctx a cid p calls) =
     calls @ [(ctx, ''POST'', base @ ''/'' @ APIVersion a @ ''/'' @ cid @ ''/products'',
               Some (CreateProduct_body p), AccessToken a)]"
  by (simp add: CreateProduct_world recording_doRequest recording_getBaseURL
        buildCatalogProductsURL_def MethodPost_def)

text \<open>
  Claim C1. For every ProductInput whose price is greater than 0, the body that
  CreateProduct sends holds under \<open>price\<close> the decimal representation of the price: a
  non-empty string of decimal digits only (so no sign, point or exponent), without a
  leading zero, whose value is the price.
\<close>

theorem CreateProduct_price_decimal:
  assumes "0 <s Price p"
  shows "map call_body (snd (CreateProduct (recordingClient base respond) ctx a cid p []))
           = [Some (CreateProduct_body p)]
         \<and> CreateProduct_body p ''price'' = Some (FormatInt (Price p))
         \<and> FormatInt (Price p) \<noteq> []
         \<and> list_all isDigit (FormatInt (Price p))
         \<and> hd (FormatInt (Price p)) \<noteq> CHR ''0''
         \<and> int (decimal_value (FormatInt (Price p))) = sint (Price p)"
proof -
  have fmt: "FormatInt (Price p) = formatBits (unat (Price p))"
    using assms by (rule FormatInt_positive)
  have "hd (formatBits (unat (Price p))) \<noteq> CHR ''0''"
    using assms by (intro formatBits_no_leading_zero positive_int64)
  moreover have "int (decimal_value (formatBits (unat (Price p)))) = sint (Price p)"
    using positive_int64(2) [OF assms] by (simp only: formatBits_value)
  ultimately show ?thesis
    by (simp add: fmt CreateProduct_calls call_body_def CreateProduct_body_price [unfolded fmt]
          formatBits_nonempty formatBits_digits)
qed

lemma formatBits_small: "u < 10 \<Longrightarrow> formatBits u = [digit_char u]"
  by (subst formatBits.simps) simp

lemma formatBits_step: "10 \<le> u \<Longrightarrow> formatBits u = formatBits (u div 10) @ [digit_char (u mod 10)]"
  by (subst formatBits.simps) simp

lemma digit_char_numerals:
  "digit_char 0 = CHR ''0''" "digit_char 1 = CHR ''1''" "digit_char 2 = CHR ''2''"
  "digit_char 3 = CHR ''3''" "digit_char 4 = CHR ''4''" "digit_char 5 = CHR ''5''"
  "digit_char 6 = CHR ''6''" "digit_char 7 = CHR ''7''" "digit_char 8 = CHR ''8''"
  "digit_char 9 = CHR ''9''" "digit_char (Suc 0) = CHR ''1''"
  by (simp_all add: digit_char_def char_of_eq_iff)

text \<open>The price 1999 of the example is sent as \<open>1999\<close>.\<close>

lemma FormatInt_1999: "FormatInt 1999 = ''1999''"
proof -
  have "\<not> (1999 :: int64) <s 0" by (simp add: word_sless_alt)
  moreover have "unat (1999 :: int64) = 1999" by simp
  moreover have "formatBits 1999 = ''1999''"
    by (simp add: formatBits_step formatBits_small digit_char_numerals)
  ultimately show ?thesis by (simp only: FormatInt_def if_False)
qed

theorem CreateProduct_price_decimal_witness:
  "0 <s Price shirt
   \<and> map call_body (snd (CreateProduct (recordingClient graph (respondWith ''{}'' :: unit call \<Rightarrow> string \<times> unit option)) () acct ''cat123'' shirt []))
       = [Some (CreateProduct_body shirt)]
   \<and> CreateProduct_body shirt ''price'' = Some ''1999''
   \<and> ''1999'' \<noteq> []
   \<and> list_all isDigit ''1999''
   \<and> hd ''1999'' \<noteq> CHR ''0''
   \<and> int (decimal_value ''1999'') = sint (Price shirt)"
proof -
  have pos: "0 <s Price shirt" by (simp add: shirt_def word_sless_alt)
  have fmt: "FormatInt (Price shirt) = ''1999''" by (simp add: shirt_def FormatInt_1999)
  show ?thesis
    using pos CreateProduct_price_decimal [OF pos, of graph "respondWith ''{}''" "()" acct "''cat123''", unfolded fmt]
    by (rule conjI)
qed

subsection \<open>The body of UpdateProduct\<close>

lemma UpdateProduct_calls:
  "snd (UpdateProduct (recordingClient base respond) ctx a pid p calls) =
     calls @ [(ctx, ''POST'', base @ ''/'' @ APIVersion a @ ''/'' @ pid,
               Some (UpdateProduct_body p), AccessToken a)]"
  by (simp add: UpdateProduct_world recording_doRequest recording_getBaseURL
        buildProductURL_def MethodPost_def)

lemma UpdateProduct_body_lookup:
  "UpdateProduct_body p k =
     (if k = ''description'' then (if Description p \<noteq> [] then Some (Description p) else None)
      else if k = ''image_url'' then (if ImageURL p \<noteq> [] then Some (ImageURL p) else None)
      else if k = ''url'' then (if URL p \<noteq> [] then Some (URL p) else None)
      else if k = ''currency'' then (if Currency p \<noteq> [] then Some (Currency p) else None)
      else if k = ''price'' then (if 0 <s Price p then Some (FormatInt (Price p)) else None)
      else if k = ''name'' then (if Name p \<noteq> [] then Some (Name p) else None)
      else None)"
  by (simp add: UpdateProduct_body_def Let_def)

lemma not_positive_int64: "(\<not> 0 <s (i :: int64)) = (i \<le>s 0)"
  by (simp add: word_sless_alt word_sle_eq not_less)

lemma dom_if_upd: "dom (if c then m(k \<mapsto> v) else m) = (if c then {k} else {}) \<union> dom m"
  by auto

lemma if_singleton_subset: "(if c then {k} else {}) \<union> A \<subseteq> insert k A"
  by auto

lemma UpdateProduct_body_dom:
  "dom (UpdateProduct_body p) \<subseteq> {''description'', ''image_url'', ''url'', ''currency'', ''price'', ''name''}"
proof -
  have "dom (UpdateProduct_body p) =
      (if Description p \<noteq> [] then {''description''} else {}) \<union>
      ((if ImageURL p \<noteq> [] then {''image_url''} else {}) \<union>
      ((if URL p \<noteq> [] then {''url''} else {}) \<union>
      ((if Currency p \<noteq> [] then {''currency''} else {}) \<union>
      ((if 0 <s Price p then {''price''} else {}) \<union>
      ((if Name p \<noteq> [] then {''name''} else {}) \<union> {})))))"
    by (simp only: UpdateProduct_body_def Let_def dom_if_upd dom_empty)
  also have "\<dots> \<subseteq> {''description'', ''image_url'', ''url'', ''currency'', ''price'', ''name''}"
    by (intro order_trans [OF if_singleton_subset] insert_mono) (rule subset_refl)
  finally show ?thesis .
qed

text \<open>
  Claim C2. For every ProductInput, the body that UpdateProduct sends holds each of the
  keys \<open>name\<close>, \<open>currency\<close>, \<open>url\<close>, \<open>image_url\<close> and \<open>description\<close> exactly when the
  field is not the empty string, and then with the field as its value; it holds
  \<open>price\<close> exactly when the price is greater than 0 (it is left out when the price is
  less than or equal to 0); and it holds no other key.
\<close>

theorem UpdateProduct_body_keys:
  "map call_body (snd (UpdateProduct (recordingClient base respond) ctx a pid p []))
     = [Some (UpdateProduct_body p)]
   \<and> UpdateProduct_body p ''name'' = (if Name p = [] then None else Some (Name p))
   \<and> UpdateProduct_body p ''price'' = (if 0 <s Price p then Some (FormatInt (Price p)) else None)
   \<and> UpdateProduct_body p ''currency'' = (if Currency p = [] then None else Some (Currency p))
   \<and> UpdateProduct_body p ''url'' = (if URL p = [] then None else Some (URL p))
   \<and> UpdateProduct_body p ''image_url'' = (if ImageURL p = [] then None else Some (ImageURL p))
   \<and> UpdateProduct_body p ''description'' = (if Description p = [] then None else Some (Description p))
   \<and> (''price'' \<notin> dom (UpdateProduct_body p)) = (Price p \<le>s 0)
   \<and> dom (UpdateProduct_body p) \<subseteq> {''description'', ''image_url'', ''url'', ''currency'', ''price'', ''name''}"
proof -
  have "map call_body (snd (UpdateProduct (recordingClient base respond) ctx a pid p []))
     = [Some (UpdateProduct_body p)]"
    by (simp add: UpdateProduct_calls call_body_def)
  moreover have "UpdateProduct_body p ''name'' = (if Name p = [] then None else Some (Name p))"
    by (simp add: UpdateProduct_body_lookup)
  moreover have "UpdateProduct_body p ''price'' = (if 0 <s Price p then Some (FormatInt (Price p)) else None)"
    by (simp add: UpdateProduct_body_lookup)
  moreover have "UpdateProduct_body p ''currency'' = (if Currency p = [] then None else Some (Currency p))"
    by (simp add: UpdateProduct_body_lookup)
  moreover have "UpdateProduct_body p ''url'' = (if URL p = [] then None else Some (URL p))"
    by (simp add: UpdateProduct_body_lookup)
  moreover have "UpdateProduct_body p ''image_url'' = (if ImageURL p = [] then None else Some (ImageURL p))"
    by (simp add: UpdateProduct_body_lookup)
  moreover have "UpdateProduct_body p ''description'' = (if Description p = [] then None else Some (Description p))"
    by (simp add: UpdateProduct_body_lookup)
  moreover have "(''price'' \<notin> dom (UpdateProduct_body p)) = (Price p \<le>s 0)"
    by (simp add: UpdateProduct_body_lookup dom_def not_positive_int64 [symmetric])
  moreover note UpdateProduct_body_dom [of p]
  ultimately show ?thesis by (intro conjI)
qed

subsection \<open>The query of ListCatalogProducts\<close>

text \<open>
  Claim C5. For every account and catalog identifier, the one request of
  ListCatalogProducts is a GET of the catalog's products URL followed by \<open>?\<close> and the
  query parameter \<open>fields\<close> with the value
  \<open>id,name,price,currency,url,image_url,retailer_id,description\<close>, name and value
  written as \<open>url.Values.Encode\<close> escapes them (a comma is sent as \<open>%2C\<close>): the query
  string is one fixed string, whatever the catalog identifier.
\<close>

theorem ListCatalogProducts_fields_query:
  "snd (ListCatalogProducts store (recordingClient base respond) ctx a cid [])
     = [(ctx, ''GET'',
         buildCatalogProductsURL (recordingClient base respond) a cid @ ''?'' @
           QueryEscape ''fields'' @ ''='' @
           QueryEscape ''id,name,price,currency,url,image_url,retailer_id,description'',
         None, AccessToken a)]
   \<and> QueryEscape ''fields'' @ ''='' @ QueryEscape ''id,name,price,currency,url,image_url,retailer_id,description''
       = ''fields=id%2Cname%2Cprice%2Ccurrency%2Curl%2Cimage_url%2Cretailer_id%2Cdescription''
   \<and> map call_url (snd (ListCatalogProducts store (recordingClient base respond) ctx a cid []))
       = [base @ ''/'' @ APIVersion a @ ''/'' @ cid @ ''/products'' @
            ''?fields=id%2Cname%2Cprice%2Ccurrency%2Curl%2Cimage_url%2Cretailer_id%2Cdescription'']"
  unfolding fields_query_escaped
  by (simp add: ListCatalogProducts_world recording_doRequest fields_query
        MethodGet_def call_url_def buildCatalogProductsURL_def recording_getBaseURL)

subsection \<open>The example of CreateProduct\<close>

lemma CreateProduct_body_shirt:
  "CreateProduct_body shirt =
     [''name'' \<mapsto> ''Shirt'', ''price'' \<mapsto> ''1999'', ''currency'' \<mapsto> ''USD'', ''url'' \<mapsto> ''https://x/y'',
      ''image_url'' \<mapsto> ''https://x/img.png'', ''retailer_id'' \<mapsto> ''sku-1'']"
  by (simp add: CreateProduct_body_def shirt_def FormatInt_1999)

lemma Unmarshal_pid_1:
  \<open>json_Unmarshal storeProductCreateResponse ''{"id":"pid_1"}'' \<lparr>ID = []\<rparr> = Returns (\<lparr>ID = ''pid_1''\<rparr>, None)\<close>
  by code_simp

lemma CreateProduct_body_description:
  "CreateProduct_body p ''description'' = (if Description p \<noteq> [] then Some (Description p) else None)"
  by (simp add: CreateProduct_body_def Let_def)

text \<open>
  Claim C3. CreateProduct with catalog \<open>cat123\<close> and the product \<open>shirt\<close> (name Shirt,
  price 1999, currency USD, URL https://x/y, image URL https://x/img.png, retailer id
  sku-1, no description) issues one POST to \<open>{base}/{ver}/cat123/products\<close> with the
  six-key body \<open>name\<close>, \<open>price\<close> = \<open>1999\<close>, \<open>currency\<close>, \<open>url\<close>, \<open>image_url\<close>,
  \<open>retailer_id\<close>, without \<open>description\<close>, and returns \<open>pid_1\<close> and no error when the
  response is \<open>{"id":"pid_1"}\<close>. For every product the body holds \<open>description\<close>
  exactly when the description is not the empty string.
\<close>

theorem CreateProduct_shirt_example:
  \<open>CreateProduct (recordingClient base (respondWith ''{"id":"pid_1"}'')) ctx a ''cat123'' shirt []
     = (Returns (''pid_1'', None),
        [(ctx, ''POST'', base @ ''/'' @ APIVersion a @ ''/cat123/products'',
          Some [''name'' \<mapsto> ''Shirt'', ''price'' \<mapsto> ''1999'', ''currency'' \<mapsto> ''USD'',
                ''url'' \<mapsto> ''https://x/y'', ''image_url'' \<mapsto> ''https://x/img.png'',
                ''retailer_id'' \<mapsto> ''sku-1''],
          AccessToken a)])
   \<and> dom (CreateProduct_body shirt) = {''retailer_id'', ''image_url'', ''url'', ''currency'', ''price'', ''name''}
   \<and> ''description'' \<notin> dom (CreateProduct_body shirt)
   \<and> (''description'' \<in> dom (CreateProduct_body p)) = (Description p \<noteq> [])
   \<and> CreateProduct_body p ''description'' = (if Description p \<noteq> [] then Some (Description p) else None)\<close>
proof -
  have \<open>CreateProduct (recordingClient base (respondWith ''{"id":"pid_1"}'')) ctx a ''cat123'' shirt []
     = (Returns (''pid_1'', None),
        [(ctx, ''POST'', base @ ''/'' @ APIVersion a @ ''/cat123/products'',
          Some (CreateProduct_body shirt), AccessToken a)])\<close>
    by (simp add: CreateProduct_def recording_doRequest recording_getBaseURL respondWith_def
          Unmarshal_pid_1 buildCatalogProductsURL_def MethodPost_def)
  then have \<open>CreateProduct (recordingClient base (respondWith ''{"id":"pid_1"}'')) ctx a ''cat123'' shirt []
     = (Returns (''pid_1'', None),
        [(ctx, ''POST'', base @ ''/'' @ APIVersion a @ ''/cat123/products'',
          Some [''name'' \<mapsto> ''Shirt'', ''price'' \<mapsto> ''1999'', ''currency'' \<mapsto> ''USD'',
                ''url'' \<mapsto> ''https://x/y'', ''image_url'' \<mapsto> ''https://x/img.png'',
                ''retailer_id'' \<mapsto> ''sku-1''],
          AccessToken a)])\<close>
    by (simp only: CreateProduct_body_shirt)
  moreover have "dom (CreateProduct_body shirt) = {''retailer_id'', ''image_url'', ''url'', ''currency'', ''price'', ''name''}"
    by (simp only: CreateProduct_body_shirt dom_fun_upd dom_empty option.distinct if_False)
  moreover have "''description'' \<notin> dom (CreateProduct_body shirt)"
    by (simp add: CreateProduct_body_description dom_def shirt_def)
  moreover have "(''description'' \<in> dom (CreateProduct_body p)) = (Description p \<noteq> [])"
    by (simp add: CreateProduct_body_description dom_def)
  moreover note CreateProduct_body_description [of p]
  ultimately show ?thesis by (intro conjI)
qed

subsection \<open>Errors of the transport\<close>

lemma CreateCatalog_transport_error:
  "doRequest c ctx MethodPost (buildCatalogsURL c a) (Some [''name'' \<mapsto> name]) (AccessToken a) w = ((rb, Some e), w')
   \<Longrightarrow> CreateCatalog c ctx a name w = (Returns ([], Some (RequestError e)), w')"
  by (simp add: CreateCatalog_def)

lemma ListCatalogs_transport_error:
  "doRequest c ctx MethodGet (buildCatalogsURL c a) None (AccessToken a) w = ((rb, Some e), w')
   \<Longrightarrow> ListCatalogs store c ctx a w = (Returns (None, Some (RequestError e)), w')"
  by (simp add: ListCatalogs_def)

lemma ListCatalogProducts_transport_error:
  "doRequest c ctx MethodGet
     (buildCatalogProductsURL c a cid @ ''?'' @
        Values_Encode (Values_Add [] ''fields'' ''id,name,price,currency,url,image_url,retailer_id,description''))
     None (AccessToken a) w = ((rb, Some e), w')
   \<Longrightarrow> ListCatalogProducts store c ctx a cid w = (Returns (None, Some (RequestError e)), w')"
  by (simp add: ListCatalogProducts_def)

lemma CreateProduct_transport_error:
  "doRequest c ctx MethodPost (buildCatalogProductsURL c a cid) (Some (CreateProduct_body p)) (AccessToken a) w
     = ((rb, Some e), w')
   \<Longrightarrow> CreateProduct c ctx a cid p w = (Returns ([], Some (RequestError e)), w')"
  by (simp add: CreateProduct_def)

lemma DeleteCatalog_transport_error:
  "doRequest c ctx MethodDelete (buildProductURL c a cid) None (AccessToken a) w = ((rb, Some e), w')
   \<Longrightarrow> DeleteCatalog c ctx a cid w = (Some (RequestError e), w')"
  by (simp add: DeleteCatalog_def buildProductURL_def)

lemma UpdateProduct_transport_error:
  "doRequest c ctx MethodPost (buildProductURL c a pid) (Some (UpdateProduct_body p)) (AccessToken a) w
     = ((rb, Some e), w')
   \<Longrightarrow> UpdateProduct c ctx a pid p w = (Some (RequestError e), w')"
  by (simp add: UpdateProduct_def)

lemma DeleteProduct_transport_error:
  "doRequest c ctx MethodDelete (buildProductURL c a pid) None (AccessToken a) w = ((rb, Some e), w')
   \<Longrightarrow> DeleteProduct c ctx a pid w = (Some (RequestError e), w')"
  by (simp add: DeleteProduct_def)

lemma CreateCatalog_error_zero:
  "CreateCatalog c ctx a name w = (Returns (r, Some er), w') \<Longrightarrow> r = []"
  by (auto simp add: CreateCatalog_def split: prod.splits option.splits outcome.splits)

lemma ListCatalogs_error_zero:
  "ListCatalogs store c ctx a w = (Returns (r, Some er), w') \<Longrightarrow> r = None"
  by (auto simp add: ListCatalogs_def split: prod.splits option.splits outcome.splits)

lemma ListCatalogProducts_error_zero:
  "ListCatalogProducts store c ctx a cid w = (Returns (r, Some er), w') \<Longrightarrow> r = None"
  by (auto simp add: ListCatalogProducts_def split: prod.splits option.splits outcome.splits)

lemma CreateProduct_error_zero:
  "CreateProduct c ctx a cid p w = (Returns (r, Some er), w') \<Longrightarrow> r = []"
  by (auto simp add: CreateProduct_def split: prod.splits option.splits outcome.splits)

text \<open>
  Claim C7. For every operation and every transport: when the one call of the transport
  returns an error, the operation returns that error, unchanged, with the zero result
  (the empty string, the nil slice, or nothing), and leaves the world as that one call
  left it, so nothing is called again. And whenever an operation returns an error, of
  either kind, its result is the zero result: there is no partial result.
\<close>

theorem transport_error_propagated:
  "(\<forall>rb e w'. doRequest c ctx MethodPost (buildCatalogsURL c a) (Some [''name'' \<mapsto> name]) (AccessToken a) w
        = ((rb, Some e), w')
      \<longrightarrow> CreateCatalog c ctx a name w = (Returns ([], Some (RequestError e)), w'))
   \<and> (\<forall>rb e w'. doRequest c ctx MethodGet (buildCatalogsURL c a) None (AccessToken a) w = ((rb, Some e), w')
      \<longrightarrow> ListCatalogs store c ctx a w = (Returns (None, Some (RequestError e)), w'))
   \<and> (\<forall>rb e w'. doRequest c ctx MethodDelete (buildProductURL c a cid) None (AccessToken a) w = ((rb, Some e), w')
      \<longrightarrow> DeleteCatalog c ctx a cid w = (Some (RequestError e), w'))
   \<and> (\<forall>rb e w'. doRequest c ctx MethodGet
           (buildCatalogProductsURL c a cid @ ''?'' @
              Values_Encode (Values_Add [] ''fields'' ''id,name,price,currency,url,image_url,retailer_id,description''))
           None (AccessToken a) w = ((rb, Some e), w')
      \<longrightarrow> ListCatalogProducts store' c ctx a cid w = (Returns (None, Some (RequestError e)), w'))
   \<and> (\<forall>rb e w'. doRequest c ctx MethodPost (buildCatalogProductsURL c a cid) (Some (CreateProduct_body p))
           (AccessToken a) w = ((rb, Some e), w')
      \<longrightarrow> CreateProduct c ctx a cid p w = (Returns ([], Some (RequestError e)), w'))
   \<and> (\<forall>rb e w'. doRequest c ctx MethodPost (buildProductURL c a pid) (Some (UpdateProduct_body p))
           (AccessToken a) w = ((rb, Some e), w')
      \<longrightarrow> UpdateProduct c ctx a pid p w = (Some (RequestError e), w'))
   \<and> (\<forall>rb e w'. doRequest c ctx MethodDelete (buildProductURL c a pid) None (AccessToken a) w = ((rb, Some e), w')
      \<longrightarrow> DeleteProduct c ctx a pid w = (Some (RequestError e), w'))
   \<and> (\<forall>r er w'. CreateCatalog c ctx a name w = (Returns (r, Some er), w') \<longrightarrow> r = [])
   \<and> (\<forall>l er w'. ListCatalogs store c ctx a w = (Returns (l, Some er), w') \<longrightarrow> l = None)
   \<and> (\<forall>l er w'. ListCatalogProducts store' c ctx a cid w = (Returns (l, Some er), w') \<longrightarrow> l = None)
   \<and> (\<forall>r er w'. CreateProduct c ctx a cid p w = (Returns (r, Some er), w') \<longrightarrow> r = [])"
  by (intro conjI allI impI CreateCatalog_transport_error ListCatalogs_transport_error
        DeleteCatalog_transport_error ListCatalogProducts_transport_error
        CreateProduct_transport_error UpdateProduct_transport_error DeleteProduct_transport_error
        CreateCatalog_error_zero ListCatalogs_error_zero ListCatalogProducts_error_zero
        CreateProduct_error_zero)

theorem transport_error_propagated_witness:
  "CreateCatalog (recordingClient graph (failWith ''timeout'')) () acct ''Spring'' []
     = (Returns ([], Some (RequestError ''timeout'')),
        [((), ''POST'', ''https://graph.facebook.com/v21.0/1029384756/owned_product_catalogs'',
          Some [''name'' \<mapsto> ''Spring''], ''EAAG'')])
   \<and> ListCatalogs keepResponse (recordingClient graph (failWith ''timeout'')) () acct []
     = (Returns (None, Some (RequestError ''timeout'')),
        [((), ''GET'', ''https://graph.facebook.com/v21.0/1029384756/owned_product_catalogs'', None, ''EAAG'')])
   \<and> DeleteCatalog (recordingClient graph (failWith ''timeout'')) () acct ''cat123'' []
     = (Some (RequestError ''timeout''),
        [((), ''DELETE'', ''https://graph.facebook.com/v21.0/cat123'', None, ''EAAG'')])
   \<and> ListCatalogProducts keepResponse (recordingClient graph (failWith ''timeout'')) () acct ''cat123'' []
     = (Returns (None, Some (RequestError ''timeout'')),
        [((), ''GET'',
          ''https://graph.facebook.com/v21.0/cat123/products?fields=id%2Cname%2Cprice%2Ccurrency%2Curl%2Cimage_url%2Cretailer_id%2Cdescription'',
          None, ''EAAG'')])
   \<and> CreateProduct (recordingClient graph (failWith ''timeout'')) () acct ''cat123'' shirt []
     = (Returns ([], Some (RequestError ''timeout'')),
        [((), ''POST'', ''https://graph.facebook.com/v21.0/cat123/products'',
          Some (CreateProduct_body shirt), ''EAAG'')])
   \<and> UpdateProduct (recordingClient graph (failWith ''timeout'')) () acct ''pid_1'' shirt []
     = (Some (RequestError ''timeout''),
        [((), ''POST'', ''https://graph.facebook.com/v21.0/pid_1'', Some (UpdateProduct_body shirt), ''EAAG'')])
   \<and> DeleteProduct (recordingClient graph (failWith ''timeout'')) () acct ''pid_1'' []
     = (Some (RequestError ''timeout''),
        [((), ''DELETE'', ''https://graph.facebook.com/v21.0/pid_1'', None, ''EAAG'')])"
proof -
  let ?c = "recordingClient graph (failWith ''timeout'') :: (unit, unit call list, string) Client"
  note th = transport_error_propagated
    [of ?c "()" acct "''Spring''" "[]" keepResponse "''cat123''" keepResponse shirt "''pid_1''"]
  note ev = recording_doRequest recording_getBaseURL failWith_def graph_def acct_def fields_query
    buildCatalogsURL_def buildCatalogProductsURL_def buildProductURL_def
    MethodGet_def MethodPost_def MethodDelete_def
  have "CreateCatalog ?c () acct ''Spring'' []
     = (Returns ([], Some (RequestError ''timeout'')),
        [((), ''POST'', ''https://graph.facebook.com/v21.0/1029384756/owned_product_catalogs'',
          Some [''name'' \<mapsto> ''Spring''], ''EAAG'')])"
    by (rule th [THEN conjunct1, rule_format]) (simp add: ev)
  moreover have "ListCatalogs keepResponse ?c () acct []
     = (Returns (None, Some (RequestError ''timeout'')),
        [((), ''GET'', ''https://graph.facebook.com/v21.0/1029384756/owned_product_catalogs'', None, ''EAAG'')])"
    by (rule th [THEN conjunct2, THEN conjunct1, rule_format]) (simp add: ev)
  moreover have "DeleteCatalog ?c () acct ''cat123'' []
     = (Some (RequestError ''timeout''),
        [((), ''DELETE'', ''https://graph.facebook.com/v21.0/cat123'', None, ''EAAG'')])"
    by (rule th [THEN conjunct2, THEN conjunct2, THEN conjunct1, rule_format]) (simp add: ev)
  moreover have "ListCatalogProducts keepResponse ?c () acct ''cat123'' []
     = (Returns (None, Some (RequestError ''timeout'')),
        [((), ''GET'',
          ''https://graph.facebook.com/v21.0/cat123/products?fields=id%2Cname%2Cprice%2Ccurrency%2Curl%2Cimage_url%2Cretailer_id%2Cdescription'',
          None, ''EAAG'')])"
    by (rule th [THEN conjunct2, THEN conjunct2, THEN conjunct2, THEN conjunct1, rule_format])
      (simp add: ev)
  moreover have "CreateProduct ?c () acct ''cat123'' shirt []
     = (Returns ([], Some (RequestError ''timeout'')),
        [((), ''POST'', ''https://graph.facebook.com/v21.0/cat123/products'',
          Some (CreateProduct_body shirt), ''EAAG'')])"
    by (rule th [THEN conjunct2, THEN conjunct2, THEN conjunct2, THEN conjunct2, THEN conjunct1, rule_format])
      (simp add: ev)
  moreover have "UpdateProduct ?c () acct ''pid_1'' shirt []
     = (Some (RequestError ''timeout''),
        [((), ''POST'', ''https://graph.facebook.com/v21.0/pid_1'', Some (UpdateProduct_body shirt), ''EAAG'')])"
    by (rule th [THEN conjunct2, THEN conjunct2, THEN conjunct2, THEN conjunct2, THEN conjunct2,
          THEN conjunct1, rule_format])
      (simp add: ev)
  moreover have "DeleteProduct ?c () acct ''pid_1'' []
     = (Some (RequestError ''timeout''),
        [((), ''DELETE'', ''https://graph.facebook.com/v21.0/pid_1'', None, ''EAAG'')])"
    by (rule th [THEN conjunct2, THEN conjunct2, THEN conjunct2, THEN conjunct2, THEN conjunct2,
          THEN conjunct2, THEN conjunct1, rule_format])
      (simp add: ev)
  ultimately show ?thesis by (intro conjI)
qed

subsection \<open>Decoding the response\<close>

lemma checkValid_loop_SyntaxError:
  "checkValid_loop s data \<noteq> None \<Longrightarrow> checkValid_loop s data = Some SyntaxError"
  by (induction data arbitrary: s) (auto split: prod.splits if_splits)

lemma json_Unmarshal_invalid:
  "checkValid data \<noteq> None \<Longrightarrow> json_Unmarshal store data v = Returns (v, Some SyntaxError)"
  using checkValid_loop_SyntaxError [of reset data]
  by (auto simp add: json_Unmarshal_def checkValid_def)

lemma json_Unmarshal_valid:
  "checkValid data = None \<Longrightarrow> value_of data = Some j \<Longrightarrow> json_Unmarshal store data v = Returns (store j v)"
  by (simp add: json_Unmarshal_def)

lemma CreateCatalog_invalid_json:
  "doRequest c ctx MethodPost (buildCatalogsURL c a) (Some [''name'' \<mapsto> name]) (AccessToken a) w = ((rb, None), w')
   \<Longrightarrow> checkValid rb \<noteq> None
   \<Longrightarrow> CreateCatalog c ctx a name w = (Returns ([], Some (DecodeError SyntaxError)), w')"
  by (simp add: CreateCatalog_def json_Unmarshal_invalid)

lemma ListCatalogs_invalid_json:
  "doRequest c ctx MethodGet (buildCatalogsURL c a) None (AccessToken a) w = ((rb, None), w')
   \<Longrightarrow> checkValid rb \<noteq> None
   \<Longrightarrow> ListCatalogs store c ctx a w = (Returns (None, Some (DecodeError SyntaxError)), w')"
  by (simp add: ListCatalogs_def json_Unmarshal_invalid)

lemma ListCatalogProducts_invalid_json:
  "doRequest c ctx MethodGet
     (buildCatalogProductsURL c a cid @ ''?'' @
        Values_Encode (Values_Add [] ''fields'' ''id,name,price,currency,url,image_url,retailer_id,description''))
     None (AccessToken a) w = ((rb, None), w')
   \<Longrightarrow> checkValid rb \<noteq> None
   \<Longrightarrow> ListCatalogProducts store c ctx a cid w = (Returns (None, Some (DecodeError SyntaxError)), w')"
  by (simp add: ListCatalogProducts_def json_Unmarshal_invalid)

lemma CreateProduct_invalid_json:
  "doRequest c ctx MethodPost (buildCatalogProductsURL c a cid) (Some (CreateProduct_body p)) (AccessToken a) w
     = ((rb, None), w')
   \<Longrightarrow> checkValid rb \<noteq> None
   \<Longrightarrow> CreateProduct c ctx a cid p w = (Returns ([], Some (DecodeError SyntaxError)), w')"
  by (simp add: CreateProduct_def json_Unmarshal_invalid)

text \<open>
  Claim C8. For every response body that is not valid JSON (\<open>checkValid\<close> reports an
  error), each of the four decoding operations CreateCatalog, ListCatalogs,
  ListCatalogProducts and CreateProduct returns (it does not panic) the decode error
  around the syntax error, with the zero result.
\<close>

theorem invalid_json_is_decode_error:
  "(\<forall>rb w'. doRequest c ctx MethodPost (buildCatalogsURL c a) (Some [''name'' \<mapsto> name]) (AccessToken a) w
        = ((rb, None), w') \<and> checkValid rb \<noteq> None
      \<longrightarrow> CreateCatalog c ctx a name w = (Returns ([], Some (DecodeError SyntaxError)), w'))
   \<and> (\<forall>rb w'. doRequest c ctx MethodGet (buildCatalogsURL c a) None (AccessToken a) w = ((rb, None), w')
        \<and> checkValid rb \<noteq> None
      \<longrightarrow> ListCatalogs store c ctx a w = (Returns (None, Some (DecodeError SyntaxError)), w'))
   \<and> (\<forall>rb w'. doRequest c ctx MethodGet
           (buildCatalogProductsURL c a cid @ ''?'' @
              Values_Encode (Values_Add [] ''fields'' ''id,name,price,currency,url,image_url,retailer_id,description''))
           None (AccessToken a) w = ((rb, None), w')
        \<and> checkValid rb \<noteq> None
      \<longrightarrow> ListCatalogProducts store' c ctx a cid w = (Returns (None, Some (DecodeError SyntaxError)), w'))
   \<and> (\<forall>rb w'. doRequest c ctx MethodPost (buildCatalogProductsURL c a cid) (Some (CreateProduct_body p))
           (AccessToken a) w = ((rb, None), w')
        \<and> checkValid rb \<noteq> None
      \<longrightarrow> CreateProduct c ctx a cid p w = (Returns ([], Some (DecodeError SyntaxError)), w'))"
  by (auto intro: CreateCatalog_invalid_json ListCatalogs_invalid_json
        ListCatalogProducts_invalid_json CreateProduct_invalid_json)

lemma checkValid_html: "checkValid ''<html>'' = Some SyntaxError"
  by code_simp

theorem invalid_json_is_decode_error_witness:
  "checkValid ''<html>'' \<noteq> None
   \<and> CreateCatalog (recordingClient graph (respondWith ''<html>'' :: unit call \<Rightarrow> string \<times> string option)) () acct ''Spring'' []
     = (Returns ([], Some (DecodeError SyntaxError)),
        [((), ''POST'', ''https://graph.facebook.com/v21.0/1029384756/owned_product_catalogs'',
          Some [''name'' \<mapsto> ''Spring''], ''EAAG'')])
   \<and> ListCatalogs keepResponse (recordingClient graph (respondWith ''<html>'' :: unit call \<Rightarrow> string \<times> string option)) () acct []
     = (Returns (None, Some (DecodeError SyntaxError)),
        [((), ''GET'', ''https://graph.facebook.com/v21.0/1029384756/owned_product_catalogs'', None, ''EAAG'')])
   \<and> ListCatalogProducts keepResponse (recordingClient graph (respondWith ''<html>'' :: unit call \<Rightarrow> string \<times> string option)) () acct ''cat123'' []
     = (Returns (None, Some (DecodeError SyntaxError)),
        [((), ''GET'',
          ''https://graph.facebook.com/v21.0/cat123/products?fields=id%2Cname%2Cprice%2Ccurrency%2Curl%2Cimage_url%2Cretailer_id%2Cdescription'',
          None, ''EAAG'')])
   \<and> CreateProduct (recordingClient graph (respondWith ''<html>'' :: unit call \<Rightarrow> string \<times> string option)) () acct ''cat123'' shirt []
     = (Returns ([], Some (DecodeError SyntaxError)),
        [((), ''POST'', ''https://graph.facebook.com/v21.0/cat123/products'',
          Some (CreateProduct_body shirt), ''EAAG'')])"
proof -
  let ?c = "recordingClient graph (respondWith ''<html>'') :: (unit, unit call list, string) Client"
  note th = invalid_json_is_decode_error
    [of ?c "()" acct "''Spring''" "[]" keepResponse "''cat123''" keepResponse shirt]
  note ev = recording_doRequest recording_getBaseURL respondWith_def graph_def acct_def fields_query
    buildCatalogsURL_def buildCatalogProductsURL_def MethodGet_def MethodPost_def checkValid_html
  have "checkValid ''<html>'' \<noteq> None" by (simp add: checkValid_html)
  moreover have "CreateCatalog ?c () acct ''Spring'' []
     = (Returns ([], Some (DecodeError SyntaxError)),
        [((), ''POST'', ''https://graph.facebook.com/v21.0/1029384756/owned_product_catalogs'',
          Some [''name'' \<mapsto> ''Spring''], ''EAAG'')])"
    by (rule th [THEN conjunct1, rule_format, where rb = "''<html>''"]) (simp add: ev)
  moreover have "ListCatalogs keepResponse ?c () acct []
     = (Returns (None, Some (DecodeError SyntaxError)),
        [((), ''GET'', ''https://graph.facebook.com/v21.0/1029384756/owned_product_catalogs'', None, ''EAAG'')])"
    by (rule th [THEN conjunct2, THEN conjunct1, rule_format, where rb = "''<html>''"]) (simp add: ev)
  moreover have "ListCatalogProducts keepResponse ?c () acct ''cat123'' []
     = (Returns (None, Some (DecodeError SyntaxError)),
        [((), ''GET'',
          ''https://graph.facebook.com/v21.0/cat123/products?fields=id%2Cname%2Cprice%2Ccurrency%2Curl%2Cimage_url%2Cretailer_id%2Cdescription'',
          None, ''EAAG'')])"
    by (rule th [THEN conjunct2, THEN conjunct2, THEN conjunct1, rule_format, where rb = "''<html>''"]) (simp add: ev)
  moreover have "CreateProduct ?c () acct ''cat123'' shirt []
     = (Returns ([], Some (DecodeError SyntaxError)),
        [((), ''POST'', ''https://graph.facebook.com/v21.0/cat123/products'',
          Some (CreateProduct_body shirt), ''EAAG'')])"
    by (rule th [THEN conjunct2, THEN conjunct2, THEN conjunct2, rule_format, where rb = "''<html>''"]) (simp add: ev)
  ultimately show ?thesis by (intro conjI)
qed

subsection \<open>The identifier in the response\<close>

text \<open>
  What the store into the one-field struct does with the members of an object: only the
  members that go to the field \<open>id\<close> count, a string among them is stored, \<open>null\<close> is
  passed over, and any other value is a type error.
\<close>

lemma storeMembers_append:
  "storeMembers (xs @ ys) acc = storeMembers ys (storeMembers xs acc)"
  by (induction xs acc rule: storeMembers.induct) (auto split: prod.splits)

lemma id_members_append: "id_members (xs @ ys) = id_members xs @ id_members ys"
  by (simp add: id_members_def)

lemma id_members_Cons:
  "id_members ((k, v) # kvs) = (if matchesField ''id'' k then v # id_members kvs else id_members kvs)"
  by (simp add: id_members_def)

lemma storeMembers_no_id: "id_members kvs = [] \<Longrightarrow> storeMembers kvs acc = acc"
  by (induction kvs acc rule: storeMembers.induct) (auto simp add: id_members_Cons split: if_splits)

lemma storeString_ok: "string_or_null v \<Longrightarrow> snd (storeString v old) = None"
  by (cases v) simp_all

lemma storeString_not_ok: "\<not> string_or_null v \<Longrightarrow> snd (storeString v old) = Some (UnmarshalTypeError (kind_name v))"
  by (cases v) simp_all

lemma storeMembers_saved:
  "list_all string_or_null (id_members kvs) \<Longrightarrow> snd (storeMembers kvs (r, saved)) = saved"
proof (induction kvs arbitrary: r saved)
  case Nil
  then show ?case by simp
next
  case (Cons kv kvs)
  obtain k v where kv: "kv = (k, v)" by (cases kv)
  show ?case
  proof (cases "matchesField ''id'' k")
    case True
    with Cons.prems kv have ok: "string_or_null v" and rest: "list_all string_or_null (id_members kvs)"
      by (simp_all add: id_members_Cons)
    obtain s e where st: "storeString v (ID r) = (s, e)" by (cases "storeString v (ID r)")
    with storeString_ok [OF ok, of "ID r"] have "e = None" by simp
    with True kv st Cons.IH [OF rest] show ?thesis
      by (cases saved) (simp_all add: saveError_def)
  next
    case False
    with Cons.prems kv have "list_all string_or_null (id_members kvs)"
      by (simp add: id_members_Cons)
    with False kv Cons.IH show ?thesis by simp
  qed
qed

lemma storeMembers_keeps_error:
  "snd (storeMembers kvs (r, Some e)) = Some e"
proof (induction kvs arbitrary: r)
  case Nil
  then show ?case by simp
next
  case (Cons kv kvs)
  obtain k v where kv: "kv = (k, v)" by (cases kv)
  with Cons show ?case
    by (simp add: saveError_def split: prod.splits)
qed

lemma storeMembers_type_error:
  "\<not> list_all string_or_null (id_members kvs) \<Longrightarrow> \<exists>k. snd (storeMembers kvs (r, None)) = Some (UnmarshalTypeError k)"
proof (induction kvs arbitrary: r)
  case Nil
  then show ?case by (simp add: id_members_def)
next
  case (Cons kv kvs)
  obtain k v where kv: "kv = (k, v)" by (cases kv)
  show ?case
  proof (cases "matchesField ''id'' k")
    case False
    with Cons kv show ?thesis by (simp add: id_members_Cons)
  next
    case True
    obtain s e where st: "storeString v (ID r) = (s, e)" by (cases "storeString v (ID r)")
    show ?thesis
    proof (cases "string_or_null v")
      case ok: True
      with storeString_ok [OF ok, of "ID r"] st have "e = None" by simp
      moreover from ok True Cons.prems kv have "\<not> list_all string_or_null (id_members kvs)"
        by (simp add: id_members_Cons)
      ultimately show ?thesis using True kv st Cons.IH by (simp add: saveError_def)
    next
      case bad: False
      with storeString_not_ok [OF bad, of "ID r"] st have "e = Some (UnmarshalTypeError (kind_name v))"
        by simp
      with True kv st show ?thesis
        by (simp add: saveError_def storeMembers_keeps_error)
    qed
  qed
qed

lemma storeMembers_last_string:
  "id_members kvs = vs @ [JString s] \<Longrightarrow> ID (fst (storeMembers kvs acc)) = s"
proof (induction kvs arbitrary: vs rule: rev_induct)
  case Nil
  then show ?case by (simp add: id_members_def)
next
  case (snoc kv kvs)
  obtain k v where kv: "kv = (k, v)" by (cases kv)
  obtain r saved where acc: "storeMembers kvs acc = (r, saved)" by (cases "storeMembers kvs acc")
  show ?case
  proof (cases "matchesField ''id'' k")
    case True
    with snoc.prems kv have "v = JString s"
      by (simp add: id_members_append id_members_Cons id_members_def)
    with True kv acc show ?thesis
      by (simp add: storeMembers_append)
  next
    case False
    with snoc.prems kv have "id_members kvs = vs @ [JString s]"
      by (simp add: id_members_append id_members_Cons id_members_def)
    from snoc.IH [OF this] False kv acc show ?thesis
      by (simp add: storeMembers_append)
  qed
qed

lemma storeIDResponse_not_object:
  "\<forall>kvs. v \<noteq> JObject kvs \<Longrightarrow> v \<noteq> JNull
   \<Longrightarrow> storeIDResponse v resp = (resp, Some (UnmarshalTypeError (kind_name v)))"
  by (cases v) auto

lemma CreateCatalog_after_call:
  "CreateCatalog_call c ctx a name w = ((rb, None), w') \<Longrightarrow> checkValid rb = None \<Longrightarrow> value_of rb = Some j
   \<Longrightarrow> CreateCatalog c ctx a name w =
       (case storeIDResponse j \<lparr>ID = []\<rparr> of
          (resp, Some perr) \<Rightarrow> (Returns ([], Some (DecodeError perr)), w')
        | (resp, None) \<Rightarrow> (Returns (ID resp, None), w'))"
  by (simp add: CreateCatalog_def CreateCatalog_call_def json_Unmarshal_valid)

lemma CreateProduct_after_call:
  "CreateProduct_call c ctx a cid p w = ((rb, None), w') \<Longrightarrow> checkValid rb = None \<Longrightarrow> value_of rb = Some j
   \<Longrightarrow> CreateProduct c ctx a cid p w =
       (case storeIDResponse j \<lparr>ID = []\<rparr> of
          (resp, Some perr) \<Rightarrow> (Returns ([], Some (DecodeError perr)), w')
        | (resp, None) \<Rightarrow> (Returns (ID resp, None), w'))"
  by (simp add: CreateProduct_def CreateProduct_call_def json_Unmarshal_valid
        storeProductCreateResponse_def)

lemma CreateCatalog_request_error_iff:
  "(CreateCatalog c ctx a name w = (Returns (r, Some (RequestError e)), w'))
     = (r = [] \<and> (\<exists>rb. CreateCatalog_call c ctx a name w = ((rb, Some e), w')))"
  by (auto simp add: CreateCatalog_def CreateCatalog_call_def
        split: prod.splits option.splits outcome.splits)

lemma CreateCatalog_syntax_error:
  "CreateCatalog_call c ctx a name w = ((rb, None), w') \<Longrightarrow> checkValid rb \<noteq> None
   \<Longrightarrow> CreateCatalog c ctx a name w = (Returns ([], Some (DecodeError SyntaxError)), w')"
  by (simp add: CreateCatalog_def CreateCatalog_call_def json_Unmarshal_invalid)

lemma CreateCatalog_wrong_kind:
  assumes "CreateCatalog_call c ctx a name w = ((rb, None), w')" "checkValid rb = None"
    "value_of rb = Some v" "\<forall>kvs. v \<noteq> JObject kvs" "v \<noteq> JNull"
  shows "CreateCatalog c ctx a name w =
           (Returns ([], Some (DecodeError (UnmarshalTypeError (kind_name v)))), w')"
  using CreateCatalog_after_call [OF assms(1-3)] storeIDResponse_not_object [OF assms(4,5)]
  by simp

lemma CreateCatalog_wrong_id:
  assumes "CreateCatalog_call c ctx a name w = ((rb, None), w')" "checkValid rb = None"
    "value_of rb = Some (JObject kvs)" "\<not> list_all string_or_null (id_members kvs)"
  shows "\<exists>k. CreateCatalog c ctx a name w = (Returns ([], Some (DecodeError (UnmarshalTypeError k))), w')"
proof -
  from storeMembers_type_error [OF assms(4), of "\<lparr>ID = []\<rparr>"]
  obtain k where "snd (storeMembers kvs (\<lparr>ID = []\<rparr>, None)) = Some (UnmarshalTypeError k)" by blast
  then obtain resp where "storeMembers kvs (\<lparr>ID = []\<rparr>, None) = (resp, Some (UnmarshalTypeError k))"
    by (cases "storeMembers kvs (\<lparr>ID = []\<rparr>, None)") simp
  with CreateCatalog_after_call [OF assms(1-3)] show ?thesis by simp
qed

lemma storeIDResponse_string_id:
  assumes "id_members kvs = vs @ [JString s]" "list_all string_or_null vs"
  shows "\<exists>resp. storeIDResponse (JObject kvs) r = (resp, None) \<and> ID resp = s"
proof -
  from assms have "list_all string_or_null (id_members kvs)" by simp
  from storeMembers_saved [OF this, of r None] storeMembers_last_string [OF assms(1), of "(r, None)"]
  show ?thesis by (cases "storeMembers kvs (r, None)") simp
qed

lemma CreateCatalog_string_id:
  assumes "CreateCatalog_call c ctx a name w = ((rb, None), w')" "checkValid rb = None"
    "value_of rb = Some (JObject kvs)" "id_members kvs = vs @ [JString s]" "list_all string_or_null vs"
  shows "CreateCatalog c ctx a name w = (Returns (s, None), w')"
  using CreateCatalog_after_call [OF assms(1-3)] storeIDResponse_string_id [OF assms(4,5), of "\<lparr>ID = []\<rparr>"]
  by auto

lemma CreateCatalog_no_id:
  assumes "CreateCatalog_call c ctx a name w = ((rb, None), w')" "checkValid rb = None"
    "value_of rb = Some JNull \<or> value_of rb = Some (JObject kvs) \<and> id_members kvs = []"
  shows "CreateCatalog c ctx a name w = (Returns ([], None), w')"
  using assms(3) CreateCatalog_after_call [OF assms(1,2)]
  by (auto simp add: storeMembers_no_id)

lemma CreateProduct_no_id:
  assumes "CreateProduct_call c ctx a cid p w = ((rb, None), w')" "checkValid rb = None"
    "value_of rb = Some JNull \<or> value_of rb = Some (JObject kvs) \<and> id_members kvs = []"
  shows "CreateProduct c ctx a cid p w = (Returns ([], None), w')"
  using assms(3) CreateProduct_after_call [OF assms(1,2)]
  by (auto simp add: storeMembers_no_id)

lemma CreateCatalog_calls:
  "snd (CreateCatalog (recordingClient base respond) ctx a name calls) =
     calls @ [(ctx, ''POST'', base @ ''/'' @ APIVersion a @ ''/'' @ BusinessID a @ ''/owned_product_catalogs'',
               Some [''name'' \<mapsto> name], AccessToken a)]"
  by (simp add: CreateCatalog_world recording_doRequest recording_getBaseURL
        buildCatalogsURL_def MethodPost_def)

text \<open>
  Claim C4, as the code has it. CreateCatalog issues one POST of the body \<open>{name}\<close> to
  the catalogs URL. It fails with the transport's error exactly when the transport
  reports one. It fails with a decode error when the response body is not valid JSON
  (a syntax error), when the JSON value is neither an object nor \<open>null\<close>, or when a
  member of the object that goes to \<open>id\<close> is neither a string nor \<open>null\<close> (a type
  error). When the members that go to \<open>id\<close> are strings or \<open>null\<close> and the last is a
  string, that string is returned with no error. A valid JSON object with no member
  that goes to \<open>id\<close> is not an error: the empty string is returned with no error.
\<close>

theorem CreateCatalog_result:
  "snd (CreateCatalog (recordingClient base respond) ctx a name [])
     = [(ctx, ''POST'', base @ ''/'' @ APIVersion a @ ''/'' @ BusinessID a @ ''/owned_product_catalogs'',
         Some [''name'' \<mapsto> name], AccessToken a)]
   \<and> (\<forall>r e w'. (CreateCatalog c ctx a name w = (Returns (r, Some (RequestError e)), w'))
        = (r = [] \<and> (\<exists>rb. CreateCatalog_call c ctx a name w = ((rb, Some e), w'))))
   \<and> (\<forall>rb w'. CreateCatalog_call c ctx a name w = ((rb, None), w') \<and> checkValid rb \<noteq> None
        \<longrightarrow> CreateCatalog c ctx a name w = (Returns ([], Some (DecodeError SyntaxError)), w'))
   \<and> (\<forall>rb w' v. CreateCatalog_call c ctx a name w = ((rb, None), w') \<and> checkValid rb = None
          \<and> value_of rb = Some v \<and> (\<forall>kvs. v \<noteq> JObject kvs) \<and> v \<noteq> JNull
        \<longrightarrow> CreateCatalog c ctx a name w
              = (Returns ([], Some (DecodeError (UnmarshalTypeError (kind_name v)))), w'))
   \<and> (\<forall>rb w' kvs. CreateCatalog_call c ctx a name w = ((rb, None), w') \<and> checkValid rb = None
          \<and> value_of rb = Some (JObject kvs) \<and> \<not> list_all string_or_null (id_members kvs)
        \<longrightarrow> (\<exists>k. CreateCatalog c ctx a name w
                   = (Returns ([], Some (DecodeError (UnmarshalTypeError k))), w')))
   \<and> (\<forall>rb w' kvs vs s. CreateCatalog_call c ctx a name w = ((rb, None), w') \<and> checkValid rb = None
          \<and> value_of rb = Some (JObject kvs) \<and> id_members kvs = vs @ [JString s]
          \<and> list_all string_or_null vs
        \<longrightarrow> CreateCatalog c ctx a name w = (Returns (s, None), w'))
   \<and> (\<forall>rb w' kvs. CreateCatalog_call c ctx a name w = ((rb, None), w') \<and> checkValid rb = None
          \<and> value_of rb = Some (JObject kvs) \<and> id_members kvs = []
        \<longrightarrow> CreateCatalog c ctx a name w = (Returns ([], None), w'))"
proof (intro conjI allI impI)
  show "snd (CreateCatalog (recordingClient base respond) ctx a name [])
     = [(ctx, ''POST'', base @ ''/'' @ APIVersion a @ ''/'' @ BusinessID a @ ''/owned_product_catalogs'',
         Some [''name'' \<mapsto> name], AccessToken a)]"
    by (simp add: CreateCatalog_calls)
next
  fix r e w'
  show "(CreateCatalog c ctx a name w = (Returns (r, Some (RequestError e)), w'))
        = (r = [] \<and> (\<exists>rb. CreateCatalog_call c ctx a name w = ((rb, Some e), w')))"
    by (rule CreateCatalog_request_error_iff)
next
  fix rb w'
  assume "CreateCatalog_call c ctx a name w = ((rb, None), w') \<and> checkValid rb \<noteq> None"
  then show "CreateCatalog c ctx a name w = (Returns ([], Some (DecodeError SyntaxError)), w')"
    by (blast intro: CreateCatalog_syntax_error)
next
  fix rb w' v
  assume "CreateCatalog_call c ctx a name w = ((rb, None), w') \<and> checkValid rb = None
          \<and> value_of rb = Some v \<and> (\<forall>kvs. v \<noteq> JObject kvs) \<and> v \<noteq> JNull"
  then show "CreateCatalog c ctx a name w
              = (Returns ([], Some (DecodeError (UnmarshalTypeError (kind_name v)))), w')"
    by (intro CreateCatalog_wrong_kind [of c ctx a name w rb w' v]) simp_all
next
  fix rb w' kvs
  assume "CreateCatalog_call c ctx a name w = ((rb, None), w') \<and> checkValid rb = None
          \<and> value_of rb = Some (JObject kvs) \<and> \<not> list_all string_or_null (id_members kvs)"
  then show "\<exists>k. CreateCatalog c ctx a name w
                   = (Returns ([], Some (DecodeError (UnmarshalTypeError k))), w')"
    by (intro CreateCatalog_wrong_id [of c ctx a name w rb w' kvs]) simp_all
next
  fix rb w' kvs vs s
  assume "CreateCatalog_call c ctx a name w = ((rb, None), w') \<and> checkValid rb = None
          \<and> value_of rb = Some (JObject kvs) \<and> id_members kvs = vs @ [JString s]
          \<and> list_all string_or_null vs"
  then show "CreateCatalog c ctx a name w = (Returns (s, None), w')"
    by (intro CreateCatalog_string_id [of c ctx a name w rb w' kvs vs s]) simp_all
next
  fix rb w' kvs
  assume "CreateCatalog_call c ctx a name w = ((rb, None), w') \<and> checkValid rb = None
          \<and> value_of rb = Some (JObject kvs) \<and> id_members kvs = []"
  then show "CreateCatalog c ctx a name w = (Returns ([], None), w')"
    by (intro CreateCatalog_no_id [of c ctx a name w rb w' kvs]) simp_all
qed

text \<open>
  Claim C9, as the code has it. For every response body that is valid JSON and is
  \<open>null\<close>, or an object with no member whose key is \<open>id\<close> up to the case of ASCII
  letters (\<open>{}\<close> for one), CreateCatalog and CreateProduct return the empty string and
  no error.
\<close>

theorem missing_id_is_success:
  "(\<forall>rb w' kvs. CreateCatalog_call c ctx a name w = ((rb, None), w') \<and> checkValid rb = None
        \<and> (value_of rb = Some JNull \<or> value_of rb = Some (JObject kvs) \<and> id_members kvs = [])
      \<longrightarrow> CreateCatalog c ctx a name w = (Returns ([], None), w'))
   \<and> (\<forall>rb w' kvs. CreateProduct_call c ctx a cid p w = ((rb, None), w') \<and> checkValid rb = None
        \<and> (value_of rb = Some JNull \<or> value_of rb = Some (JObject kvs) \<and> id_members kvs = [])
      \<longrightarrow> CreateProduct c ctx a cid p w = (Returns ([], None), w'))"
proof (intro conjI allI impI)
  fix rb w' kvs
  assume "CreateCatalog_call c ctx a name w = ((rb, None), w') \<and> checkValid rb = None
        \<and> (value_of rb = Some JNull \<or> value_of rb = Some (JObject kvs) \<and> id_members kvs = [])"
  then show "CreateCatalog c ctx a name w = (Returns ([], None), w')"
    by (intro CreateCatalog_no_id [of c ctx a name w rb w' kvs]) simp_all
next
  fix rb w' kvs
  assume "CreateProduct_call c ctx a cid p w = ((rb, None), w') \<and> checkValid rb = None
        \<and> (value_of rb = Some JNull \<or> value_of rb = Some (JObject kvs) \<and> id_members kvs = [])"
  then show "CreateProduct c ctx a cid p w = (Returns ([], None), w')"
    by (intro CreateProduct_no_id [of c ctx a cid p w rb w' kvs]) simp_all
qed

subsection \<open>Responses of the examples\<close>

lemma json_empty_object: "checkValid ''{}'' = None" "value_of ''{}'' = Some (JObject [])"
  by code_simp+

lemma json_empty_array: "checkValid ''[]'' = None" "value_of ''[]'' = Some (JArray [])"
  by code_simp+

lemma json_id_cat_1:
  \<open>checkValid ''{"id":"cat_1"}'' = None\<close>
  \<open>value_of ''{"id":"cat_1"}'' = Some (JObject [(''id'', JString ''cat_1'')])\<close>
  by code_simp+

lemma json_id_5:
  \<open>checkValid ''{"id":5}'' = None\<close>
  \<open>value_of ''{"id":5}'' = Some (JObject [(''id'', JNumber ''5'')])\<close>
  by code_simp+

lemma id_members_examples:
  "id_members [] = []"
  "id_members [(''id'', JString ''cat_1'')] = [] @ [JString ''cat_1'']"
  "id_members [(''id'', JNumber ''5'')] = [JNumber ''5'']"
  by (simp_all add: id_members_def matchesField_def)

lemma Spring_call:
  "CreateCatalog_call (recordingClient graph respond) () acct ''Spring'' [] =
     (respond ((), ''POST'', ''https://graph.facebook.com/v21.0/1029384756/owned_product_catalogs'',
               Some [''name'' \<mapsto> ''Spring''], ''EAAG''),
      [((), ''POST'', ''https://graph.facebook.com/v21.0/1029384756/owned_product_catalogs'',
        Some [''name'' \<mapsto> ''Spring''], ''EAAG'')])"
  by (simp add: CreateCatalog_call_def recording_doRequest recording_getBaseURL buildCatalogsURL_def
        MethodPost_def graph_def acct_def)

lemma shirt_call:
  "CreateProduct_call (recordingClient graph respond) () acct ''cat123'' shirt [] =
     (respond ((), ''POST'', ''https://graph.facebook.com/v21.0/cat123/products'',
               Some (CreateProduct_body shirt), ''EAAG''),
      [((), ''POST'', ''https://graph.facebook.com/v21.0/cat123/products'',
        Some (CreateProduct_body shirt), ''EAAG'')])"
  by (simp add: CreateProduct_call_def recording_doRequest recording_getBaseURL
        buildCatalogProductsURL_def MethodPost_def graph_def acct_def)

text \<open>
  Against claim C4 as stated: the response \<open>{}\<close> is valid JSON without an \<open>id\<close>, and
  CreateCatalog returns the empty string and no error.
\<close>

theorem CreateCatalog_missing_id_counterexample:
  "checkValid ''{}'' = None
   \<and> value_of ''{}'' = Some (JObject [])
   \<and> CreateCatalog (recordingClient graph (respondWith ''{}'' :: unit call \<Rightarrow> string \<times> string option))
        () acct ''Spring'' []
      = (Returns ([], None),
         [((), ''POST'', ''https://graph.facebook.com/v21.0/1029384756/owned_product_catalogs'',
           Some [''name'' \<mapsto> ''Spring''], ''EAAG'')])"
proof -
  have "CreateCatalog (recordingClient graph (respondWith ''{}'' :: unit call \<Rightarrow> string \<times> string option))
        () acct ''Spring'' []
      = (Returns ([], None),
         [((), ''POST'', ''https://graph.facebook.com/v21.0/1029384756/owned_product_catalogs'',
           Some [''name'' \<mapsto> ''Spring''], ''EAAG'')])"
    by (rule CreateCatalog_no_id [where rb = "''{}''" and kvs = "[]"])
      (simp_all add: Spring_call respondWith_def json_empty_object id_members_examples)
  with json_empty_object show ?thesis by (intro conjI)
qed

text \<open>
  The cases of the result of CreateCatalog on a failing transport and on the responses
  \<open><html>\<close>, \<open>[]\<close>, \<open>{"id":5}\<close>, \<open>{"id":"cat_1"}\<close> and \<open>{}\<close>.
\<close>

theorem CreateCatalog_result_witness:
  \<open>fst (CreateCatalog (recordingClient graph (failWith ''timeout'')) () acct ''Spring'' [])
     = Returns ([], Some (RequestError ''timeout''))
   \<and> fst (CreateCatalog (recordingClient graph (respondWith ''<html>'' :: unit call \<Rightarrow> string \<times> string option)) () acct ''Spring'' [])
     = Returns ([], Some (DecodeError SyntaxError))
   \<and> fst (CreateCatalog (recordingClient graph (respondWith ''[]'' :: unit call \<Rightarrow> string \<times> string option)) () acct ''Spring'' [])
     = Returns ([], Some (DecodeError (UnmarshalTypeError ''array'')))
   \<and> (\<exists>k. fst (CreateCatalog (recordingClient graph (respondWith ''{"id":5}'' :: unit call \<Rightarrow> string \<times> string option)) () acct ''Spring'' [])
     = Returns ([], Some (DecodeError (UnmarshalTypeError k))))
   \<and> fst (CreateCatalog (recordingClient graph (respondWith ''{"id":"cat_1"}'' :: unit call \<Rightarrow> string \<times> string option)) () acct ''Spring'' [])
     = Returns (''cat_1'', None)
   \<and> fst (CreateCatalog (recordingClient graph (respondWith ''{}'' :: unit call \<Rightarrow> string \<times> string option)) () acct ''Spring'' [])
     = Returns ([], None)\<close>
proof -
  let ?call = "((), ''POST'', ''https://graph.facebook.com/v21.0/1029384756/owned_product_catalogs'',
        Some [''name'' \<mapsto> ''Spring''], ''EAAG'') :: unit call"
  let ?rc = "\<lambda>rb. recordingClient graph (respondWith rb) :: (unit, unit call list, string) Client"
  let ?fc = "recordingClient graph (failWith ''timeout'') :: (unit, unit call list, string) Client"
  note th = CreateCatalog_result [where ctx = "()" and a = acct and name = "''Spring''" and w = "[]"]
  note ev = Spring_call respondWith_def failWith_def checkValid_html json_empty_object
    json_empty_array json_id_cat_1 json_id_5 id_members_examples
  have "CreateCatalog ?fc () acct ''Spring'' [] = (Returns ([], Some (RequestError ''timeout'')), [?call])"
    by (rule th [where c = ?fc, THEN conjunct2, THEN conjunct1, rule_format, THEN iffD2])
      (simp add: ev)
  moreover have "CreateCatalog (?rc ''<html>'') () acct ''Spring'' []
      = (Returns ([], Some (DecodeError SyntaxError)), [?call])"
    by (rule th [where c = "?rc ''<html>''", THEN conjunct2, THEN conjunct2, THEN conjunct1, rule_format,
          where rb = "''<html>''"])
      (simp add: ev)
  moreover have "CreateCatalog (?rc ''[]'') () acct ''Spring'' []
      = (Returns ([], Some (DecodeError (UnmarshalTypeError (kind_name (JArray []))))), [?call])"
    by (rule th [where c = "?rc ''[]''", THEN conjunct2, THEN conjunct2, THEN conjunct2, THEN conjunct1,
          rule_format, where rb = "''[]''"])
      (simp add: ev)
  moreover have \<open>\<exists>k. CreateCatalog (?rc ''{"id":5}'') () acct ''Spring'' []
      = (Returns ([], Some (DecodeError (UnmarshalTypeError k))), [?call])\<close>
    by (rule th [where c = \<open>?rc ''{"id":5}''\<close>, THEN conjunct2, THEN conjunct2, THEN conjunct2,
          THEN conjunct2, THEN conjunct1, rule_format,
          where rb = \<open>''{"id":5}''\<close> and kvs = "[(''id'', JNumber ''5'')]"])
      (simp add: ev)
  moreover have \<open>CreateCatalog (?rc ''{"id":"cat_1"}'') () acct ''Spring'' []
      = (Returns (''cat_1'', None), [?call])\<close>
    by (rule th [where c = \<open>?rc ''{"id":"cat_1"}''\<close>, THEN conjunct2, THEN conjunct2, THEN conjunct2,
          THEN conjunct2, THEN conjunct2, THEN conjunct1, rule_format,
          where rb = \<open>''{"id":"cat_1"}''\<close> and kvs = "[(''id'', JString ''cat_1'')]" and vs = "[]"])
      (simp add: ev)
  moreover have "CreateCatalog (?rc ''{}'') () acct ''Spring'' [] = (Returns ([], None), [?call])"
    by (rule th [where c = "?rc ''{}''", THEN conjunct2, THEN conjunct2, THEN conjunct2,
          THEN conjunct2, THEN conjunct2, THEN conjunct2, rule_format,
          where rb = "''{}''" and kvs = "[]"])
      (simp add: ev)
  ultimately show ?thesis by auto
qed

text \<open>
  Against claim C9 as stated: the response \<open>[]\<close> is valid JSON and holds no \<open>id\<close>, and
  both operations return a decode error.
\<close>

theorem array_response_counterexample:
  "checkValid ''[]'' = None
   \<and> value_of ''[]'' = Some (JArray [])
   \<and> fst (CreateCatalog (recordingClient graph (respondWith ''[]'' :: unit call \<Rightarrow> string \<times> string option))
        () acct ''Spring'' [])
      = Returns ([], Some (DecodeError (UnmarshalTypeError ''array'')))
   \<and> fst (CreateProduct (recordingClient graph (respondWith ''[]'' :: unit call \<Rightarrow> string \<times> string option))
        () acct ''cat123'' shirt [])
      = Returns ([], Some (DecodeError (UnmarshalTypeError ''array'')))"
proof -
  let ?c = "recordingClient graph (respondWith ''[]'') :: (unit, unit call list, string) Client"
  have "CreateCatalog_call ?c () acct ''Spring'' []
      = ((''[]'', None), snd (CreateCatalog_call ?c () acct ''Spring'' []))"
    by (simp add: Spring_call respondWith_def)
  from CreateCatalog_after_call [OF this json_empty_array]
  have "fst (CreateCatalog ?c () acct ''Spring'' [])
      = Returns ([], Some (DecodeError (UnmarshalTypeError ''array'')))"
    by simp
  moreover have "CreateProduct_call ?c () acct ''cat123'' shirt []
      = ((''[]'', None), snd (CreateProduct_call ?c () acct ''cat123'' shirt []))"
    by (simp add: shirt_call respondWith_def)
  from CreateProduct_after_call [OF this json_empty_array]
  have "fst (CreateProduct ?c () acct ''cat123'' shirt [])
      = Returns ([], Some (DecodeError (UnmarshalTypeError ''array'')))"
    by simp
  ultimately show ?thesis using json_empty_array by (intro conjI)
qed

text \<open>Both operations on the response \<open>{}\<close>.\<close>

theorem missing_id_is_success_witness:
  "checkValid ''{}'' = None
   \<and> value_of ''{}'' = Some (JObject [])
   \<and> id_members [] = []
   \<and> fst (CreateCatalog (recordingClient graph (respondWith ''{}'' :: unit call \<Rightarrow> string \<times> string option))
        () acct ''Spring'' [])
      = Returns ([], None)
   \<and> fst (CreateProduct (recordingClient graph (respondWith ''{}'' :: unit call \<Rightarrow> string \<times> string option))
        () acct ''cat123'' shirt [])
      = Returns ([], None)"
proof -
  let ?c = "recordingClient graph (respondWith ''{}'') :: (unit, unit call list, string) Client"
  note th = missing_id_is_success [of ?c "()" acct "''Spring''" "[]" "''cat123''" shirt]
  note ev = Spring_call shirt_call respondWith_def json_empty_object id_members_examples
  have "CreateCatalog ?c () acct ''Spring'' []
      = (Returns ([], None), snd (CreateCatalog_call ?c () acct ''Spring'' []))"
    by (rule th [THEN conjunct1, rule_format, where rb = "''{}''" and kvs = "[]"]) (simp add: ev)
  moreover have "CreateProduct ?c () acct ''cat123'' shirt []
      = (Returns ([], None), snd (CreateProduct_call ?c () acct ''cat123'' shirt []))"
    by (rule th [THEN conjunct2, rule_format, where rb = "''{}''" and kvs = "[]"]) (simp add: ev)
  ultimately show ?thesis using json_empty_object id_members_examples(1) by simp
qed

end
